theory Spec2Isabelle
  imports Complex_Main "HOL-Library.Char_ord" "HOL-Library.List_Lexorder"
begin

section \<open>Data model\<close>

text \<open>
  An ObjectId is a natural number. A JavaScript number is a rational: the rounding of
  IEEE doubles is not part of the model. A collection is the list of its documents in
  the order the store yields them; \<open>_id\<close> is the primary key of a collection.
\<close>

type_synonym oid = nat
type_synonym num = rat

text \<open>\<open>models/User.js\<close>: a user document. \<open>password\<close> is \<open>None\<close> on a document that
  was loaded with \<open>select('-password')\<close>.\<close>

record user =
  user_id :: oid
  username :: string
  email :: string
  password :: "string option"
  role :: string
  user_isActive :: bool

text \<open>\<open>models/Product.js\<close>: a stored product document. \<open>createdAt\<close> and
  \<open>updatedAt\<close> are the timestamps of the schema option \<open>timestamps\<close>.\<close>

record product =
  product_id :: oid
  name :: string
  description :: string
  sku :: string
  category :: string
  price :: num
  cost :: num
  quantity :: num
  minQuantity :: num
  maxQuantity :: "num option"
  unit :: string
  supplier_name :: "string option"
  supplier_contact :: "string option"
  location :: "string option"
  isActive :: bool
  createdBy :: oid
  createdAt :: nat
  updatedAt :: nat

record db =
  users :: "user list"
  products :: "product list"

text \<open>\<open>req.params.id\<close>: a string that Mongoose casts to an ObjectId, or on which the
  cast throws a CastError of kind \<open>ObjectId\<close>.\<close>

datatype id_param = ObjectId oid | InvalidId string

text \<open>A JSON value of a request body, as far as \<open>typeof\<close> tells them apart.\<close>

datatype json = Num num | Str string | Bool bool | Null

text \<open>\<open>req.body\<close> of \<open>POST /api/products\<close> and \<open>PUT /api/products/:id\<close>: the paths
  of the product schema, each present or not, with values of the type of the path.\<close>

record product_body =
  b_name :: "string option"
  b_description :: "string option"
  b_sku :: "string option"
  b_category :: "string option"
  b_price :: "num option"
  b_cost :: "num option"
  b_quantity :: "num option"
  b_minQuantity :: "num option"
  b_maxQuantity :: "num option"
  b_unit :: "string option"
  b_supplier_name :: "string option"
  b_supplier_contact :: "string option"
  b_location :: "string option"
  b_isActive :: "bool option"
  b_createdBy :: "oid option"

text \<open>The body of \<open>PATCH /api/products/:id/quantity\<close>.\<close>

record quantity_body =
  qb_quantity :: "json option"
  qb_operation :: "string option"

text \<open>The result of \<open>populate('createdBy', 'username email')\<close>.\<close>

record populated_user =
  pu_id :: oid
  pu_username :: string
  pu_email :: string

text \<open>The \<open>stats\<close> object of \<open>getInventoryStats\<close> and one entry of \<open>categoryStats\<close>.\<close>

record stats =
  totalProducts :: nat
  totalValue :: num
  totalCost :: num
  lowStockProducts :: nat
  outOfStockProducts :: nat

record category_stat =
  cs_id :: string
  cs_count :: nat
  cs_totalValue :: num

text \<open>The \<open>pagination\<close> object of \<open>getProducts\<close>; \<open>totalPages\<close> is \<open>None\<close> where the
  division by the limit has no finite value.\<close>

record pagination =
  currentPage :: int
  totalPages :: "int option"
  pg_totalProducts :: nat
  hasNextPage :: bool
  hasPrevPage :: bool

text \<open>Response bodies. \<open>Err error message\<close> is \<open>{error, message}\<close>, \<open>ErrorOnly error\<close>
  is \<open>{error}\<close>; \<open>Failure error\<close> is the body of a 500 answer, whose \<open>message\<close> is the
  text of the exception caught; \<open>AuthBody message user token\<close> is the success body of
  the authentication controller.\<close>

datatype body =
    Err string string
  | ErrorOnly string
  | Failure string
  | AuthBody string user string
  | ProductBody string product
  | PopulatedBody string product "populated_user option"
  | ListBody string "(product \<times> populated_user option) list" pagination
  | StatsBody string stats "category_stat list"

datatype response = Response (status: nat) (content: body)

text \<open>An exception that a handler wrapped in \<open>catchAsync\<close> passes on to the error
  handler: the error classes of \<open>utils/errors\<close>, the validation error of \<open>save()\<close> with
  its messages, the duplicate-key error (code 11000) of a unique index, and any other
  exception.\<close>

datatype thrown =
    ValidationError string
  | AuthenticationError string
  | ConflictError string
  | SchemaValidationError "string list"
  | DuplicateKeyError string
  | OtherError string

section \<open>Store operations\<close>

definition findById :: "product list \<Rightarrow> oid \<Rightarrow> product option" where
  "findById ps i = find (\<lambda>p. product_id p = i) ps"

text \<open>Replacing the document with a given \<open>_id\<close> (the key is unique).\<close>

definition replaceById :: "product list \<Rightarrow> oid \<Rightarrow> product \<Rightarrow> product list" where
  "replaceById ps i p' = map (\<lambda>p. if product_id p = i then p' else p) ps"

definition findUserById :: "user list \<Rightarrow> oid \<Rightarrow> user option" where
  "findUserById us i = find (\<lambda>u. user_id u = i) us"

text \<open>\<open>populate('createdBy', 'username email')\<close>: null when the user is not stored.\<close>

definition populate :: "user list \<Rightarrow> product \<Rightarrow> populated_user option" where
  "populate us p =
     map_option (\<lambda>u. \<lparr>pu_id = user_id u, pu_username = username u, pu_email = email u\<rparr>)
       (findUserById us (createdBy p))"

section \<open>Setters and validators of \<open>models/Product.js\<close>\<close>

definition is_space :: "char \<Rightarrow> bool" where
  "is_space c = (c \<in> set [CHR '' '', CHR 0x09, CHR 0x0A, CHR 0x0B, CHR 0x0C, CHR 0x0D])"

definition trim :: "string \<Rightarrow> string" where
  "trim s = rev (dropWhile is_space (rev (dropWhile is_space s)))"

definition upper_char :: "char \<Rightarrow> char" where
  "upper_char c =
     (let n = (of_char c :: nat) in if 97 \<le> n \<and> n \<le> 122 then char_of (n - 32) else c)"

definition uppercase :: "string \<Rightarrow> string" where
  "uppercase s = map upper_char s"

text \<open>The setters of the schema (\<open>trim\<close>, \<open>uppercase\<close>), applied when a value is cast.\<close>

definition cast_body :: "product_body \<Rightarrow> product_body" where
  "cast_body b = b\<lparr>
     b_name := map_option trim (b_name b),
     b_description := map_option trim (b_description b),
     b_sku := map_option (uppercase \<circ> trim) (b_sku b),
     b_category := map_option trim (b_category b),
     b_unit := map_option trim (b_unit b),
     b_supplier_name := map_option trim (b_supplier_name b),
     b_supplier_contact := map_option trim (b_supplier_contact b),
     b_location := map_option trim (b_location b)\<rparr>"

text \<open>The validators of one path, run on a value that is present: \<open>required\<close> rejects
  the empty string, \<open>maxlength\<close> and \<open>min\<close> as declared.\<close>

definition str_errors :: "string option \<Rightarrow> string \<Rightarrow> string list" where
  "str_errors v msg = (if v = Some [] then [msg] else [])"

definition maxlength :: "nat \<Rightarrow> string option \<Rightarrow> string \<Rightarrow> string list" where
  "maxlength n v msg = (case v of None \<Rightarrow> [] | Some x \<Rightarrow> if length x > n then [msg] else [])"

definition min0 :: "num option \<Rightarrow> string \<Rightarrow> string list" where
  "min0 v msg = (case v of None \<Rightarrow> [] | Some x \<Rightarrow> if x < 0 then [msg] else [])"

definition present_errors :: "product_body \<Rightarrow> string list" where
  "present_errors b =
     str_errors (b_name b) ''Product name is required'' @
     maxlength 100 (b_name b) ''Product name cannot exceed 100 characters'' @
     str_errors (b_description b) ''Product description is required'' @
     maxlength 500 (b_description b) ''Description cannot exceed 500 characters'' @
     str_errors (b_sku b) ''SKU is required'' @
     str_errors (b_category b) ''Category is required'' @
     min0 (b_price b) ''Price cannot be negative'' @
     min0 (b_cost b) ''Cost cannot be negative'' @
     min0 (b_quantity b) ''Quantity cannot be negative'' @
     min0 (b_minQuantity b) ''Minimum quantity cannot be negative'' @
     min0 (b_maxQuantity b) ''Maximum quantity cannot be negative'' @
     str_errors (b_unit b) ''Unit is required''"

text \<open>\<open>required\<close> on a path that is absent. \<open>quantity\<close> has a default, and
  \<open>createdBy\<close> is set by the controller.\<close>

definition missing :: "'a option \<Rightarrow> string \<Rightarrow> string list" where
  "missing v msg = (if v = None then [msg] else [])"

definition missing_errors :: "product_body \<Rightarrow> string list" where
  "missing_errors b =
     missing (b_name b) ''Product name is required'' @
     missing (b_description b) ''Product description is required'' @
     missing (b_sku b) ''SKU is required'' @
     missing (b_category b) ''Category is required'' @
     missing (b_price b) ''Price is required'' @
     missing (b_cost b) ''Cost is required'' @
     missing (b_unit b) ''Unit is required''"

text \<open>Validation of a new document by \<open>save()\<close>: every path.\<close>

definition validate_new :: "product_body \<Rightarrow> string list" where
  "validate_new b = missing_errors b @ present_errors b"

text \<open>Validation of a stored document by \<open>save()\<close> after \<open>quantity\<close> was assigned: the
  required paths and the modified path.\<close>

definition validate_saved :: "product \<Rightarrow> string list" where
  "validate_saved p =
     str_errors (Some (name p)) ''Product name is required'' @
     str_errors (Some (description p)) ''Product description is required'' @
     str_errors (Some (sku p)) ''SKU is required'' @
     str_errors (Some (category p)) ''Category is required'' @
     min0 (Some (quantity p)) ''Quantity cannot be negative'' @
     str_errors (Some (unit p)) ''Unit is required''"

section \<open>The product controller\<close>

definition invalid_id :: response where
  "invalid_id = Response 400 (Err ''Invalid product ID'' ''Please provide a valid product ID'')"

definition not_found :: response where
  "not_found = Response 404 (Err ''Product not found'' ''No product found with the provided ID'')"

definition access_denied :: "string \<Rightarrow> response" where
  "access_denied msg = Response 403 (Err ''Access denied'' msg)"

text \<open>\<open>getProduct\<close>. On a product whose creator is not in the user collection
  \<open>populate\<close> leaves \<open>createdBy\<close> null, and reading \<open>createdBy._id\<close> throws.\<close>

definition getProduct :: "db \<Rightarrow> user \<Rightarrow> id_param \<Rightarrow> response" where
  "getProduct s req_user idp =
     (case idp of
        InvalidId _ \<Rightarrow> invalid_id
      | ObjectId i \<Rightarrow>
          (case findById (products s) i of
             None \<Rightarrow> not_found
           | Some p \<Rightarrow>
               (case populate (users s) p of
                  None \<Rightarrow> Response 500 (Failure ''Failed to get product'')
                | Some c \<Rightarrow>
                    if pu_id c \<noteq> user_id req_user
                    then access_denied ''You can only access your own products''
                    else Response 200
                           (PopulatedBody ''Product retrieved successfully'' p (Some c)))))"

text \<open>\<open>deleteProduct\<close>: the update \<open>{isActive: false}\<close>, stamped with the time of the
  call, on the document found.\<close>

definition deleteProduct :: "nat \<Rightarrow> db \<Rightarrow> user \<Rightarrow> id_param \<Rightarrow> db \<times> response" where
  "deleteProduct now s req_user idp =
     (case idp of
        InvalidId _ \<Rightarrow> (s, invalid_id)
      | ObjectId i \<Rightarrow>
          (case findById (products s) i of
             None \<Rightarrow> (s, not_found)
           | Some existingProduct \<Rightarrow>
               if createdBy existingProduct \<noteq> user_id req_user
               then (s, access_denied ''You can only delete your own products'')
               else
                 let p' = existingProduct\<lparr>isActive := False, updatedAt := now\<rparr>
                 in (s\<lparr>products := replaceById (products s) i p'\<rparr>,
                     Response 200 (ProductBody ''Product deleted successfully'' p'))))"

text \<open>The \<open>switch\<close> of \<open>updateQuantity\<close>; \<open>current\<close> is \<open>product.quantity\<close>.\<close>

definition newQuantity :: "string \<Rightarrow> num \<Rightarrow> num \<Rightarrow> num" where
  "newQuantity operation current q =
     (if operation = ''add'' then current + q
      else if operation = ''subtract'' then max 0 (current - q)
      else q)"

text \<open>\<open>updateQuantity\<close>. \<open>save()\<close> validates the required paths and the modified
  path, and writes (and stamps) the document only when the quantity changed.\<close>

definition updateQuantity :: "nat \<Rightarrow> db \<Rightarrow> user \<Rightarrow> id_param \<Rightarrow> quantity_body \<Rightarrow> db \<times> response" where
  "updateQuantity now s req_user idp b =
     (case qb_quantity b of
        Some (Num q) \<Rightarrow>
          if q < 0
          then (s, Response 400 (Err ''Invalid quantity'' ''Quantity must be a non-negative number''))
          else
            (case idp of
               InvalidId _ \<Rightarrow> (s, invalid_id)
             | ObjectId i \<Rightarrow>
                 (case findById (products s) i of
                    None \<Rightarrow> (s, not_found)
                  | Some p \<Rightarrow>
                      if createdBy p \<noteq> user_id req_user
                      then (s, access_denied ''You can only update quantity for your own products'')
                      else
                        let operation = (case qb_operation b of None \<Rightarrow> ''set'' | Some x \<Rightarrow> x);
                            n = newQuantity operation (quantity p) q;
                            p' = (if n = quantity p then p
                                  else p\<lparr>quantity := n, updatedAt := now\<rparr>)
                        in if validate_saved p' \<noteq> []
                           then (s, Response 500 (Failure ''Failed to update product quantity''))
                           else (s\<lparr>products := replaceById (products s) i p'\<rparr>,
                                 Response 200
                                   (ProductBody ''Product quantity updated successfully'' p'))))
      | _ \<Rightarrow> (s, Response 400 (Err ''Invalid quantity'' ''Quantity must be a non-negative number'')))"

text \<open>\<open>createProduct\<close>. The body is spread first, so \<open>createdBy\<close> is the caller
  whatever the body says. \<open>new Product\<close> casts the values and fills the defaults of
  the schema; \<open>save()\<close> validates, and the unique indexes on \<open>_id\<close> and \<open>sku\<close> reject
  a duplicate. \<open>new_id\<close> is the ObjectId generated for the document.\<close>

definition build_product :: "nat \<Rightarrow> oid \<Rightarrow> oid \<Rightarrow> product_body \<Rightarrow> product option" where
  "build_product now new_id owner b =
     (case (b_name b, b_description b, b_sku b, b_category b, b_price b, b_cost b, b_unit b) of
        (Some n, Some d, Some k, Some c, Some pr, Some co, Some un) \<Rightarrow>
          Some \<lparr>product_id = new_id,
                name = n,
                description = d,
                sku = k,
                category = c,
                price = pr,
                cost = co,
                quantity = (case b_quantity b of None \<Rightarrow> 0 | Some q \<Rightarrow> q),
                minQuantity = (case b_minQuantity b of None \<Rightarrow> 0 | Some q \<Rightarrow> q),
                maxQuantity = b_maxQuantity b,
                unit = un,
                supplier_name = b_supplier_name b,
                supplier_contact = b_supplier_contact b,
                location = b_location b,
                isActive = (case b_isActive b of None \<Rightarrow> True | Some a \<Rightarrow> a),
                createdBy = owner,
                createdAt = now,
                updatedAt = now\<rparr>
      | _ \<Rightarrow> None)"

definition createProduct ::
  "nat \<Rightarrow> oid \<Rightarrow> db \<Rightarrow> user \<Rightarrow> product_body \<Rightarrow> db \<times> (thrown + response)" where
  "createProduct now new_id s req_user b =
     (let productData = cast_body b
      in case (if validate_new productData = []
               then build_product now new_id (user_id req_user) productData else None) of
           None \<Rightarrow> (s, Inl (SchemaValidationError (validate_new productData)))
         | Some product \<Rightarrow>
             if new_id \<in> set (map product_id (products s))
             then (s, Inl (DuplicateKeyError ''_id''))
             else if sku product \<in> set (map sku (products s))
             then (s, Inl (DuplicateKeyError ''sku''))
             else (s\<lparr>products := products s @ [product]\<rparr>,
                   Inr (Response 201 (ProductBody ''Product created successfully'' product))))"

text \<open>\<open>findByIdAndUpdate(id, req.body, {new: true, runValidators: true})\<close>: the paths
  present in the body are cast, validated and assigned; \<open>updatedAt\<close> is stamped.\<close>

definition apply_update :: "nat \<Rightarrow> product_body \<Rightarrow> product \<Rightarrow> product" where
  "apply_update now b p =
     p\<lparr>name := (case b_name b of None \<Rightarrow> name p | Some v \<Rightarrow> v),
       description := (case b_description b of None \<Rightarrow> description p | Some v \<Rightarrow> v),
       sku := (case b_sku b of None \<Rightarrow> sku p | Some v \<Rightarrow> v),
       category := (case b_category b of None \<Rightarrow> category p | Some v \<Rightarrow> v),
       price := (case b_price b of None \<Rightarrow> price p | Some v \<Rightarrow> v),
       cost := (case b_cost b of None \<Rightarrow> cost p | Some v \<Rightarrow> v),
       quantity := (case b_quantity b of None \<Rightarrow> quantity p | Some v \<Rightarrow> v),
       minQuantity := (case b_minQuantity b of None \<Rightarrow> minQuantity p | Some v \<Rightarrow> v),
       maxQuantity := (case b_maxQuantity b of None \<Rightarrow> maxQuantity p | Some v \<Rightarrow> Some v),
       unit := (case b_unit b of None \<Rightarrow> unit p | Some v \<Rightarrow> v),
       supplier_name :=
         (case b_supplier_name b of None \<Rightarrow> supplier_name p | Some v \<Rightarrow> Some v),
       supplier_contact :=
         (case b_supplier_contact b of None \<Rightarrow> supplier_contact p | Some v \<Rightarrow> Some v),
       location := (case b_location b of None \<Rightarrow> location p | Some v \<Rightarrow> Some v),
       isActive := (case b_isActive b of None \<Rightarrow> isActive p | Some v \<Rightarrow> v),
       createdBy := (case b_createdBy b of None \<Rightarrow> createdBy p | Some v \<Rightarrow> v),
       updatedAt := now\<rparr>"

text \<open>\<open>updateProduct\<close>. A validation error of the update is neither an ObjectId cast
  error nor a duplicate key, so the handler answers 500.\<close>

definition updateProduct ::
  "nat \<Rightarrow> db \<Rightarrow> user \<Rightarrow> id_param \<Rightarrow> product_body \<Rightarrow> db \<times> response" where
  "updateProduct now s req_user idp b =
     (case idp of
        InvalidId _ \<Rightarrow> (s, invalid_id)
      | ObjectId i \<Rightarrow>
          (case findById (products s) i of
             None \<Rightarrow> (s, not_found)
           | Some existingProduct \<Rightarrow>
               if createdBy existingProduct \<noteq> user_id req_user
               then (s, access_denied ''You can only update your own products'')
               else
                 let u = cast_body b
                 in if present_errors u \<noteq> []
                    then (s, Response 500 (Failure ''Failed to update product''))
                    else if b_sku u \<in> set (map (Some \<circ> sku)
                                (filter (\<lambda>p. product_id p \<noteq> i) (products s)))
                    then (s, Response 400
                               (Err ''Duplicate SKU'' ''A product with this SKU already exists''))
                    else
                      let p' = apply_update now u existingProduct;
                          s' = s\<lparr>products := replaceById (products s) i p'\<rparr>
                      in (s', Response 200
                                (PopulatedBody ''Product updated successfully'' p'
                                   (populate (users s') p')))))"

text \<open>\<open>getInventoryStats\<close>: the two aggregations over the caller's active products.
  The groups of the second one are listed in the order of their first document and
  sorted by descending count.\<close>

definition owned_active :: "user \<Rightarrow> product \<Rightarrow> bool" where
  "owned_active req_user p = (isActive p \<and> createdBy p = user_id req_user)"

definition group_stats :: "product list \<Rightarrow> stats" where
  "group_stats ps =
     \<lparr>totalProducts = length ps,
      totalValue = sum_list (map (\<lambda>p. price p * quantity p) ps),
      totalCost = sum_list (map (\<lambda>p. cost p * quantity p) ps),
      lowStockProducts = length (filter (\<lambda>p. quantity p \<le> minQuantity p) ps),
      outOfStockProducts = length (filter (\<lambda>p. quantity p = 0) ps)\<rparr>"

definition zero_stats :: stats where
  "zero_stats =
     \<lparr>totalProducts = 0, totalValue = 0, totalCost = 0,
      lowStockProducts = 0, outOfStockProducts = 0\<rparr>"

definition group_category :: "product list \<Rightarrow> string \<Rightarrow> category_stat" where
  "group_category ps c =
     (let g = filter (\<lambda>p. category p = c) ps
      in \<lparr>cs_id = c, cs_count = length g,
          cs_totalValue = sum_list (map (\<lambda>p. price p * quantity p) g)\<rparr>)"

fun insert_by :: "('a \<Rightarrow> 'a \<Rightarrow> bool) \<Rightarrow> 'a \<Rightarrow> 'a list \<Rightarrow> 'a list" where
  "insert_by le x [] = [x]"
| "insert_by le x (y # ys) = (if le x y then x # y # ys else y # insert_by le x ys)"

definition sort_by :: "('a \<Rightarrow> 'a \<Rightarrow> bool) \<Rightarrow> 'a list \<Rightarrow> 'a list" where
  "sort_by le xs = foldr (insert_by le) xs []"

definition getInventoryStats :: "db \<Rightarrow> user \<Rightarrow> response" where
  "getInventoryStats s req_user =
     (let matched = filter (owned_active req_user) (products s);
          stats = (if matched = [] then [] else [group_stats matched]);
          categoryStats =
            sort_by (\<lambda>a b. cs_count a \<ge> cs_count b)
              (map (group_category matched) (remdups (map category matched)))
      in Response 200
           (StatsBody ''Inventory statistics retrieved successfully''
              (case stats of [] \<Rightarrow> zero_stats | st # _ \<Rightarrow> st) categoryStats))"

text \<open>\<open>req.query\<close> of \<open>getProducts\<close> after the destructuring with its defaults:
  \<open>q_page\<close> and \<open>q_limit\<close> are what \<open>parseInt\<close> reads, \<open>q_minPrice\<close> and \<open>q_maxPrice\<close>
  what \<open>parseFloat\<close> reads; a parameter that is absent or empty is \<open>None\<close>.\<close>

record list_query =
  q_page :: int
  q_limit :: int
  q_category :: "string option"
  q_search :: "string option"
  q_minPrice :: "num option"
  q_maxPrice :: "num option"
  q_stockStatus :: "string option"
  q_sortBy :: string
  q_sortOrder :: string

text \<open>The regular expressions of the store are a parameter \<open>rx\<close>: \<open>rx pat\<close> is the
  case-insensitive matcher of the pattern, or \<open>None\<close> when the pattern does not
  compile.\<close>

definition rx_test :: "(string \<Rightarrow> (string \<Rightarrow> bool) option) \<Rightarrow> string \<Rightarrow> string \<Rightarrow> bool" where
  "rx_test rx pat subject = (case rx pat of None \<Rightarrow> False | Some m \<Rightarrow> m subject)"

definition rx_ok :: "(string \<Rightarrow> (string \<Rightarrow> bool) option) \<Rightarrow> string option \<Rightarrow> bool" where
  "rx_ok rx pat = (case pat of None \<Rightarrow> True | Some x \<Rightarrow> rx x \<noteq> None)"

text \<open>The filter object that \<open>getProducts\<close> builds, as a predicate on documents.\<close>

definition stock_filter :: "string option \<Rightarrow> product \<Rightarrow> bool" where
  "stock_filter st p =
     (if st = Some ''in-stock'' then quantity p > 0
      else if st = Some ''out-of-stock'' then quantity p = 0
      else if st = Some ''low-stock'' then quantity p \<le> minQuantity p
      else True)"

definition list_filter ::
  "(string \<Rightarrow> (string \<Rightarrow> bool) option) \<Rightarrow> user \<Rightarrow> list_query \<Rightarrow> product \<Rightarrow> bool" where
  "list_filter rx req_user q p =
     (isActive p \<and> createdBy p = user_id req_user \<and>
      (case q_category q of None \<Rightarrow> True | Some c \<Rightarrow> rx_test rx c (category p)) \<and>
      (case q_search q of None \<Rightarrow> True
       | Some x \<Rightarrow> rx_test rx x (name p) \<or> rx_test rx x (description p) \<or> rx_test rx x (sku p)) \<and>
      (case q_minPrice q of None \<Rightarrow> True | Some m \<Rightarrow> price p \<ge> m) \<and>
      (case q_maxPrice q of None \<Rightarrow> True | Some m \<Rightarrow> price p \<le> m) \<and>
      stock_filter (q_stockStatus q) p)"

text \<open>The value of a sort path in a document, and the order of the store on values:
  null, then numbers, strings, ObjectIds, booleans, dates.\<close>

datatype sortval = SNull | SNum num | SStr string | SOid oid | SBool bool | SDate nat

fun le_sortval :: "sortval \<Rightarrow> sortval \<Rightarrow> bool" where
  "le_sortval SNull _ = True"
| "le_sortval (SNum a) (SNum b) = (a \<le> b)"
| "le_sortval (SNum _) v = (v \<noteq> SNull)"
| "le_sortval (SStr a) (SStr b) = (a \<le> b)"
| "le_sortval (SStr _) v = (case v of SNull \<Rightarrow> False | SNum _ \<Rightarrow> False | _ \<Rightarrow> True)"
| "le_sortval (SOid a) (SOid b) = (a \<le> b)"
| "le_sortval (SOid _) v = (case v of SBool _ \<Rightarrow> True | SDate _ \<Rightarrow> True | _ \<Rightarrow> False)"
| "le_sortval (SBool a) (SBool b) = (a \<le> b)"
| "le_sortval (SBool _) v = (case v of SDate _ \<Rightarrow> True | _ \<Rightarrow> False)"
| "le_sortval (SDate a) (SDate b) = (a \<le> b)"
| "le_sortval (SDate _) _ = False"

definition opt_val :: "('a \<Rightarrow> sortval) \<Rightarrow> 'a option \<Rightarrow> sortval" where
  "opt_val f v = (case v of None \<Rightarrow> SNull | Some x \<Rightarrow> f x)"

definition path_value :: "string \<Rightarrow> product \<Rightarrow> sortval" where
  "path_value path p =
     (if path = ''_id'' then SOid (product_id p)
      else if path = ''name'' then SStr (name p)
      else if path = ''description'' then SStr (description p)
      else if path = ''sku'' then SStr (sku p)
      else if path = ''category'' then SStr (category p)
      else if path = ''price'' then SNum (price p)
      else if path = ''cost'' then SNum (cost p)
      else if path = ''quantity'' then SNum (quantity p)
      else if path = ''minQuantity'' then SNum (minQuantity p)
      else if path = ''maxQuantity'' then opt_val SNum (maxQuantity p)
      else if path = ''unit'' then SStr (unit p)
      else if path = ''supplier.name'' then opt_val SStr (supplier_name p)
      else if path = ''supplier.contact'' then opt_val SStr (supplier_contact p)
      else if path = ''location'' then opt_val SStr (location p)
      else if path = ''isActive'' then SBool (isActive p)
      else if path = ''createdBy'' then SOid (createdBy p)
      else if path = ''createdAt'' then SDate (createdAt p)
      else if path = ''updatedAt'' then SDate (updatedAt p)
      else SNull)"

definition sort_products :: "string \<Rightarrow> string \<Rightarrow> product list \<Rightarrow> product list" where
  "sort_products sortBy sortOrder ps =
     (if sortOrder = ''desc''
      then sort_by (\<lambda>a b. le_sortval (path_value sortBy b) (path_value sortBy a)) ps
      else sort_by (\<lambda>a b. le_sortval (path_value sortBy a) (path_value sortBy b)) ps)"

text \<open>\<open>skip\<close> and \<open>limit\<close> of the store: a limit of 0 is no limit, a negative limit
  counts as its absolute value.\<close>

definition skip_limit :: "int \<Rightarrow> int \<Rightarrow> 'a list \<Rightarrow> 'a list" where
  "skip_limit skip limit xs =
     (let ys = drop (nat skip) xs in if limit = 0 then ys else take (nat \<bar>limit\<bar>) ys)"

text \<open>\<open>getProducts\<close>. A pattern that does not compile and a negative skip make the
  query throw, and the handler answers 500.\<close>

definition getProducts ::
  "(string \<Rightarrow> (string \<Rightarrow> bool) option) \<Rightarrow> db \<Rightarrow> user \<Rightarrow> list_query \<Rightarrow> response" where
  "getProducts rx s req_user q =
     (let skip = (q_page q - 1) * q_limit q
      in if \<not> rx_ok rx (q_category q) \<or> \<not> rx_ok rx (q_search q) \<or> skip < 0
         then Response 500 (Failure ''Failed to get products'')
         else
           let matched = filter (list_filter rx req_user q) (products s);
               found = skip_limit skip (q_limit q)
                         (sort_products (q_sortBy q) (q_sortOrder q) matched);
               total = length matched
           in Response 200
                (ListBody ''Products retrieved successfully''
                   (map (\<lambda>p. (p, populate (users s) p)) found)
                   \<lparr>currentPage = q_page q,
                    totalPages = (if q_limit q = 0 then None
                                  else Some \<lceil>(of_nat total :: rat) / of_int (q_limit q)\<rceil>),
                    pg_totalProducts = total,
                    hasNextPage = (skip + int (length found) < int total),
                    hasPrevPage = (q_page q > 1)\<rparr>))"

text \<open>The documents of the \<open>products\<close> array of a response.\<close>

definition listed :: "response \<Rightarrow> product list" where
  "listed r = (case content r of ListBody _ ps _ \<Rightarrow> map fst ps | _ \<Rightarrow> [])"

section \<open>Request validation of the product routes\<close>

text \<open>The sanitizer \<open>escape\<close> of the validation chains.\<close>

definition escape_char :: "char \<Rightarrow> string" where
  "escape_char c =
     (if c = CHR ''&'' then ''&amp;''
      else if c = CHR 0x22 then ''&quot;''
      else if c = CHR 0x27 then ''&#x27;''
      else if c = CHR ''<'' then ''&lt;''
      else if c = CHR ''>'' then ''&gt;''
      else if c = CHR ''/'' then ''&#x2F;''
      else if c = CHR 0x5C then ''&#x5C;''
      else if c = CHR 0x60 then ''&#96;''
      else [c])"

definition escape :: "string \<Rightarrow> string" where
  "escape s = concat (map escape_char s)"

definition is_int :: "num \<Rightarrow> bool" where
  "is_int x = (of_int \<lfloor>x\<rfloor> = x)"

fun join :: "string list \<Rightarrow> string" where
  "join [] = []"
| "join [m] = m"
| "join (m # ms) = m @ '', '' @ join ms"

text \<open>The chains on \<open>name\<close>, \<open>price\<close> and \<open>quantity\<close>. With \<open>opt\<close> the chain is
  \<open>optional()\<close> and skips a field that is absent.\<close>

definition name_chain :: "bool \<Rightarrow> string option \<Rightarrow> string list" where
  "name_chain opt v =
     (case v of
        None \<Rightarrow> if opt then [] else [''Product name must be between 2 and 100 characters'']
      | Some x \<Rightarrow> if 2 \<le> length (trim x) \<and> length (trim x) \<le> 100 then []
                  else [''Product name must be between 2 and 100 characters''])"

definition price_chain :: "bool \<Rightarrow> num option \<Rightarrow> string list" where
  "price_chain opt v =
     (case v of
        None \<Rightarrow> if opt then [] else [''Price must be a positive number'']
      | Some x \<Rightarrow> if 0 \<le> x then [] else [''Price must be a positive number''])"

definition quantity_chain :: "bool \<Rightarrow> num option \<Rightarrow> string list" where
  "quantity_chain opt v =
     (case v of
        None \<Rightarrow> if opt then [] else [''Quantity must be a non-negative integer'']
      | Some x \<Rightarrow> if is_int x \<and> 0 \<le> x then []
                  else [''Quantity must be a non-negative integer''])"

text \<open>\<open>commonValidations.productCreate\<close> and \<open>commonValidations.productUpdate\<close>, with
  \<open>handleValidationErrors\<close> at their end: the sanitized body, or the error thrown.
  No other field of the body is looked at or removed.\<close>

definition product_chains :: "bool \<Rightarrow> product_body \<Rightarrow> thrown + product_body" where
  "product_chains opt b =
     (let errors = name_chain opt (b_name b) @ price_chain opt (b_price b) @
                   quantity_chain opt (b_quantity b)
      in if errors \<noteq> [] then Inl (ValidationError (join errors))
         else Inr (b\<lparr>b_name := map_option (escape \<circ> trim) (b_name b)\<rparr>))"

definition productCreate :: "product_body \<Rightarrow> thrown + product_body" where
  "productCreate b = product_chains False b"


text \<open>\<open>routes/product.js\<close>: \<open>POST /\<close> and \<open>PUT /:id\<close> for a caller that \<open>auth\<close> let
  through.\<close>

definition post_products ::
  "nat \<Rightarrow> oid \<Rightarrow> db \<Rightarrow> user \<Rightarrow> product_body \<Rightarrow> db \<times> (thrown + response)" where
  "post_products now new_id s req_user b =
     (case productCreate b of
        Inl e \<Rightarrow> (s, Inl e)
      | Inr b' \<Rightarrow> createProduct now new_id s req_user b')"


section \<open>Sequences of product operations\<close>

text \<open>One call of a handler of the product controller, with the caller that \<open>auth\<close>
  attached to the request and the arguments the handler reads. Every request to a
  product route runs at most one of them.\<close>

datatype operation =
    Create nat oid user product_body
  | List user list_query
  | Get user id_param
  | Update nat user id_param product_body
  | Delete nat user id_param
  | Quantity nat user id_param quantity_body
  | Stats user

fun step :: "db \<Rightarrow> operation \<Rightarrow> db" where
  "step s (Create now new_id u b) = fst (createProduct now new_id s u b)"
| "step s (List u q) = s"
| "step s (Get u idp) = s"
| "step s (Update now u idp b) = fst (updateProduct now s u idp b)"
| "step s (Delete now u idp) = fst (deleteProduct now s u idp)"
| "step s (Quantity now u idp b) = fst (updateQuantity now s u idp b)"
| "step s (Stats u) = s"

fun run :: "db \<Rightarrow> operation list \<Rightarrow> db" where
  "run s [] = s"
| "run s (x # xs) = run (step s x) xs"

text \<open>An update of the product \<open>i\<close> whose body carries \<open>isActive: true\<close>.\<close>

fun activates :: "oid \<Rightarrow> operation \<Rightarrow> bool" where
  "activates i (Update now u idp b) = (idp = ObjectId i \<and> b_isActive b = Some True)"
| "activates i _ = False"

section \<open>Setters and validators of \<open>models/User.js\<close>\<close>

text \<open>Regular expressions, matched by derivatives: enough for the pattern of the
  \<open>email\<close> path.\<close>

datatype regex =
    Zero
  | One
  | Sym "char \<Rightarrow> bool"
  | Alt regex regex
  | Seq regex regex
  | Star regex

fun nullable :: "regex \<Rightarrow> bool" where
  "nullable Zero = False"
| "nullable One = True"
| "nullable (Sym P) = False"
| "nullable (Alt r s) = (nullable r \<or> nullable s)"
| "nullable (Seq r s) = (nullable r \<and> nullable s)"
| "nullable (Star r) = True"

fun deriv :: "char \<Rightarrow> regex \<Rightarrow> regex" where
  "deriv c Zero = Zero"
| "deriv c One = Zero"
| "deriv c (Sym P) = (if P c then One else Zero)"
| "deriv c (Alt r s) = Alt (deriv c r) (deriv c s)"
| "deriv c (Seq r s) =
     (if nullable r then Alt (Seq (deriv c r) s) (deriv c s) else Seq (deriv c r) s)"
| "deriv c (Star r) = Seq (deriv c r) (Star r)"

fun matches :: "regex \<Rightarrow> string \<Rightarrow> bool" where
  "matches r [] = nullable r"
| "matches r (c # cs) = matches (deriv c r) cs"

definition word_char :: "char \<Rightarrow> bool" where
  "word_char c =
     (let n = (of_char c :: nat)
      in (48 \<le> n \<and> n \<le> 57) \<or> (65 \<le> n \<and> n \<le> 90) \<or> (97 \<le> n \<and> n \<le> 122) \<or> n = 95)"

definition plus :: "regex \<Rightarrow> regex" where
  "plus r = Seq r (Star r)"

definition opt :: "regex \<Rightarrow> regex" where
  "opt r = Alt One r"

text \<open>\<open>\w+([.-]?\w+)*\<close>, and the whole pattern
  \<open>^\w+([.-]?\w+)*@\w+([.-]?\w+)*(\.\w{2,3})+$\<close>.\<close>

definition words :: regex where
  "words =
     Seq (plus (Sym word_char))
       (Star (Seq (opt (Sym (\<lambda>c. c = CHR ''.'' \<or> c = CHR ''-''))) (plus (Sym word_char))))"

definition email_regex :: regex where
  "email_regex =
     Seq words
       (Seq (Sym (\<lambda>c. c = CHR ''@''))
          (Seq words
             (plus (Seq (Sym (\<lambda>c. c = CHR ''.''))
                      (Seq (Sym word_char) (Seq (Sym word_char) (opt (Sym word_char))))))))"

definition lower_char :: "char \<Rightarrow> char" where
  "lower_char c =
     (let n = (of_char c :: nat) in if 65 \<le> n \<and> n \<le> 90 then char_of (n + 32) else c)"

definition lowercase :: "string \<Rightarrow> string" where
  "lowercase s = map lower_char s"

text \<open>Validation of a new user document by \<open>save()\<close>, after the setters.\<close>

definition validate_user :: "user \<Rightarrow> string list" where
  "validate_user u =
     (if username u = [] then [''Username is required'']
      else if length (username u) < 3 then [''Username must be at least 3 characters long'']
      else if length (username u) > 30 then [''Username cannot exceed 30 characters'']
      else []) @
     (if email u = [] then [''Email is required'']
      else if \<not> matches email_regex (email u) then [''Please enter a valid email'']
      else []) @
     (case password u of
        None \<Rightarrow> [''Password is required'']
      | Some pw \<Rightarrow>
          if pw = [] then [''Password is required'']
          else if length pw < 6 then [''Password must be at least 6 characters long'']
          else []) @
     (if role u \<in> set [''user'', ''admin''] then []
      else [''`'' @ role u @ ''` is not a valid enum value for path `role`.''])"

section \<open>The authentication controller\<close>

text \<open>The bodies of \<open>POST /api/auth/register\<close> and \<open>POST /api/auth/login\<close>.\<close>

record register_body =
  rb_username :: string
  rb_email :: string
  rb_password :: string
  rb_role :: "string option"

record login_body =
  lb_email :: string
  lb_password :: string

text \<open>\<open>user.toJSON()\<close> and \<open>select('-password')\<close>: the document without its
  password.\<close>

definition toJSON :: "user \<Rightarrow> user" where
  "toJSON u = u\<lparr>password := None\<rparr>"

text \<open>\<open>register\<close>. \<open>hash\<close> is the hashing of the pre-save hook, \<open>generateToken\<close> the
  signing of a token for a user id, \<open>new_id\<close> the ObjectId generated for the document.
  \<open>findOne\<close> yields the first document that matches one of the two conditions.
  \<open>role || 'user'\<close> takes the default for a role that is absent or empty.\<close>

definition new_user :: "oid \<Rightarrow> register_body \<Rightarrow> user" where
  "new_user new_id b =
     \<lparr>user_id = new_id,
      username = trim (rb_username b),
      email = trim (lowercase (rb_email b)),
      password = Some (rb_password b),
      role = (case rb_role b of None \<Rightarrow> ''user'' | Some r \<Rightarrow> if r = [] then ''user'' else r),
      user_isActive = True\<rparr>"

definition register ::
  "(string \<Rightarrow> string) \<Rightarrow> (oid \<Rightarrow> string) \<Rightarrow> oid \<Rightarrow> db \<Rightarrow> register_body
     \<Rightarrow> db \<times> (thrown + response)" where
  "register hash generateToken new_id s b =
     (case find (\<lambda>u. email u = rb_email b \<or> username u = rb_username b) (users s) of
        Some existingUser \<Rightarrow>
          (s, Inl (ConflictError
                     (if email existingUser = rb_email b then ''Email is already registered''
                      else ''Username is already taken'')))
      | None \<Rightarrow>
          let user = new_user new_id b
          in if validate_user user \<noteq> []
             then (s, Inl (SchemaValidationError (validate_user user)))
             else if new_id \<in> set (map user_id (users s))
             then (s, Inl (DuplicateKeyError ''_id''))
             else if username user \<in> set (map username (users s))
             then (s, Inl (DuplicateKeyError ''username''))
             else if email user \<in> set (map email (users s))
             then (s, Inl (DuplicateKeyError ''email''))
             else
               let saved = user\<lparr>password := Some (hash (rb_password b))\<rparr>
               in (s\<lparr>users := users s @ [saved]\<rparr>,
                   Inr (Response 201
                          (AuthBody ''User registered successfully'' (toJSON saved)
                             (generateToken new_id)))))"

text \<open>\<open>login\<close>. \<open>compare candidate hash\<close> is \<open>bcrypt.compare\<close>, which throws on a
  document without a password.\<close>

definition login ::
  "(string \<Rightarrow> string \<Rightarrow> bool) \<Rightarrow> (oid \<Rightarrow> string) \<Rightarrow> db \<Rightarrow> login_body \<Rightarrow> thrown + response" where
  "login compare generateToken s b =
     (case find (\<lambda>u. email u = lb_email b) (users s) of
        None \<Rightarrow> Inl (AuthenticationError ''Email or password is incorrect'')
      | Some user \<Rightarrow>
          if \<not> user_isActive user
          then Inl (AuthenticationError
                      ''Your account has been disabled. Please contact administrator.'')
          else
            (case password user of
               None \<Rightarrow> Inl (OtherError ''Illegal arguments'')
             | Some h \<Rightarrow>
                 if \<not> compare (lb_password b) h
                 then Inl (AuthenticationError ''Email or password is incorrect'')
                 else Inr (Response 200
                             (AuthBody ''Login successful'' (toJSON user)
                                (generateToken (user_id user))))))"

section \<open>The authentication middleware\<close>

text \<open>\<open>String.prototype.replace\<close> with a string pattern: the first occurrence.\<close>

fun replace_first :: "string \<Rightarrow> string \<Rightarrow> string \<Rightarrow> string" where
  "replace_first pat rep [] = (if pat = [] then rep else [])"
| "replace_first pat rep (c # cs) =
     (if take (length pat) (c # cs) = pat then rep @ drop (length pat) (c # cs)
      else c # replace_first pat rep cs)"

text \<open>\<open>jwt.verify(token, process.env.JWT_SECRET)\<close> is a parameter \<open>verify\<close>: it yields
  the payload, of which the middleware reads \<open>userId\<close> (absent, or a value that casts
  to an ObjectId or does not), or throws an error with a \<open>name\<close>.\<close>

datatype verify_result = Payload "id_param option" | Throws string

definition no_token :: response where
  "no_token = Response 401 (ErrorOnly ''Access denied. No token provided.'')"

definition user_not_found :: response where
  "user_not_found = Response 401 (ErrorOnly ''Invalid token. User not found or inactive.'')"

text \<open>\<open>auth\<close>: the response sent, or the user attached to the request when \<open>next()\<close>
  is called. \<open>header\<close> is \<open>req.header('Authorization')\<close>.\<close>

definition auth :: "(string \<Rightarrow> verify_result) \<Rightarrow> db \<Rightarrow> string option \<Rightarrow> response + user" where
  "auth verify s header =
     (case map_option (replace_first ''Bearer '' []) header of
        None \<Rightarrow> Inl no_token
      | Some token \<Rightarrow>
          if token = [] then Inl no_token
          else
            (case verify token of
               Throws error_name \<Rightarrow>
                 if error_name = ''JsonWebTokenError''
                 then Inl (Response 401 (ErrorOnly ''Invalid token.''))
                 else if error_name = ''TokenExpiredError''
                 then Inl (Response 401 (ErrorOnly ''Token expired.''))
                 else Inl (Response 500 (ErrorOnly ''Token verification failed.''))
             | Payload None \<Rightarrow> Inl user_not_found
             | Payload (Some (InvalidId _)) \<Rightarrow>
                 Inl (Response 500 (ErrorOnly ''Token verification failed.''))
             | Payload (Some (ObjectId i)) \<Rightarrow>
                 (case findUserById (users s) i of
                    None \<Rightarrow> Inl user_not_found
                  | Some user \<Rightarrow>
                      if \<not> user_isActive user then Inl user_not_found
                      else Inr (toJSON user))))"

section \<open>Example documents\<close>

text \<open>Two registered users, and two products of the first one, one of them
  soft-deleted.\<close>

definition alice :: user where
  "alice = \<lparr>user_id = 1, username = ''alice'', email = ''alice@example.com'',
            password = Some ''hash-of-Password123'', role = ''user'', user_isActive = True\<rparr>"

definition bob :: user where
  "bob = \<lparr>user_id = 2, username = ''bob'', email = ''bob@example.com'',
          password = Some ''hash-of-Secret456'', role = ''user'', user_isActive = True\<rparr>"

definition laptop :: product where
  "laptop = \<lparr>product_id = 10, name = ''Laptop'', description = ''A laptop'', sku = ''LAP-1'',
             category = ''Electronics'', price = 999.99, cost = 700, quantity = 10,
             minQuantity = 0, maxQuantity = None, unit = ''pieces'', supplier_name = None,
             supplier_contact = None, location = None, isActive = True, createdBy = 1,
             createdAt = 0, updatedAt = 0\<rparr>"

definition archived :: product where
  "archived = \<lparr>product_id = 11, name = ''Mouse'', description = ''A mouse'', sku = ''MOU-1'',
               category = ''Electronics'', price = 29.99, cost = 12, quantity = 0,
               minQuantity = 0, maxQuantity = None, unit = ''pieces'', supplier_name = None,
               supplier_contact = None, location = None, isActive = False, createdBy = 1,
               createdAt = 1, updatedAt = 2\<rparr>"

text \<open>A body without any field, and a query with the defaults of \<open>getProducts\<close>.\<close>

definition no_fields :: product_body where
  "no_fields = \<lparr>b_name = None, b_description = None, b_sku = None, b_category = None,
                b_price = None, b_cost = None, b_quantity = None, b_minQuantity = None,
                b_maxQuantity = None, b_unit = None, b_supplier_name = None,
                b_supplier_contact = None, b_location = None, b_isActive = None,
                b_createdBy = None\<rparr>"

definition default_query :: list_query where
  "default_query = \<lparr>q_page = 1, q_limit = 10, q_category = None, q_search = None,
                    q_minPrice = None, q_maxPrice = None, q_stockStatus = None,
                    q_sortBy = ''createdAt'', q_sortOrder = ''desc''\<rparr>"

text \<open>The body of the request of the specification's example, and the same body with
  the other required paths of the schema.\<close>

definition laptop_request :: product_body where
  "laptop_request = no_fields\<lparr>b_name := Some ''Laptop'', b_price := Some 999.99,
                                b_quantity := Some 10\<rparr>"

definition full_request :: product_body where
  "full_request = laptop_request\<lparr>b_description := Some ''A laptop'', b_sku := Some ''LAP-2'',
                                  b_category := Some ''Electronics'', b_cost := Some 700,
                                  b_unit := Some ''pieces''\<rparr>"

definition store :: db where
  "store = \<lparr>users = [alice, bob], products = [laptop, archived]\<rparr>"

section \<open>Properties\<close>

subsection \<open>Lookup and replacement by \<open>_id\<close>\<close>

lemma findById_id: "findById ps i = Some p \<Longrightarrow> product_id p = i"
  by (auto simp: findById_def dest: find_Some_iff[THEN iffD1])

lemma findById_mem: "findById ps i = Some p \<Longrightarrow> p \<in> set ps"
  by (auto simp: findById_def find_Some_iff)

lemma findById_replaceById:
  "findById ps i = Some p \<Longrightarrow> product_id p' = i \<Longrightarrow> findById (replaceById ps i p') i = Some p'"
  by (induction ps) (auto simp: findById_def replaceById_def split: if_splits)

subsection \<open>Stored documents satisfy their schema\<close>

text \<open>The validators that \<open>save()\<close> runs on a stored document hold of every document
  that a handler writes: of a new document, of an updated one, and so along every
  sequence of calls.\<close>

lemma str_errors_Nil: "str_errors v m = [] \<longleftrightarrow> v \<noteq> Some []"
  by (simp add: str_errors_def)

lemma min0_Nil: "min0 v m = [] \<longleftrightarrow> (\<forall>x. v = Some x \<longrightarrow> 0 \<le> x)"
  by (cases v) (simp_all add: min0_def not_less)

lemma missing_Nil: "missing v m = [] \<longleftrightarrow> v \<noteq> None"
  by (simp add: missing_def)

lemma validate_saved_Nil:
  "validate_saved p = [] \<longleftrightarrow>
     name p \<noteq> [] \<and> description p \<noteq> [] \<and> sku p \<noteq> [] \<and> category p \<noteq> [] \<and>
     0 \<le> quantity p \<and> unit p \<noteq> []"
  by (simp add: validate_saved_def str_errors_Nil min0_Nil)

lemma present_errors_Nil:
  assumes "present_errors b = []"
  shows "b_name b \<noteq> Some []" "b_description b \<noteq> Some []" "b_sku b \<noteq> Some []"
    "b_category b \<noteq> Some []" "b_unit b \<noteq> Some []" "\<forall>x. b_quantity b = Some x \<longrightarrow> 0 \<le> x"
  using assms by (simp_all add: present_errors_def str_errors_Nil min0_Nil)

lemma build_product_valid:
  assumes new: "validate_new b = []" and built: "build_product now new_id owner b = Some p"
  shows "validate_saved p = []"
proof -
  from new have m: "missing_errors b = []" and pr: "present_errors b = []"
    by (simp_all add: validate_new_def)
  from m obtain n d k c pc co un where v:
    "b_name b = Some n" "b_description b = Some d" "b_sku b = Some k" "b_category b = Some c"
    "b_price b = Some pc" "b_cost b = Some co" "b_unit b = Some un"
    by (auto simp: missing_errors_def missing_Nil)
  from present_errors_Nil[OF pr] v
  have ne: "n \<noteq> []" "d \<noteq> []" "k \<noteq> []" "c \<noteq> []" "un \<noteq> []"
    and q: "\<forall>x. b_quantity b = Some x \<longrightarrow> 0 \<le> x"
    by simp_all
  from built v have "name p = n" "description p = d" "sku p = k" "category p = c" "unit p = un"
    "quantity p = (case b_quantity b of None \<Rightarrow> 0 | Some x \<Rightarrow> x)"
    by (auto simp: build_product_def)
  with ne q show ?thesis
    by (cases "b_quantity b") (simp_all add: validate_saved_Nil)
qed

lemma apply_update_valid:
  assumes pr: "present_errors b = []" and old: "validate_saved p = []"
  shows "validate_saved (apply_update now b p) = []"
proof -
  note e = present_errors_Nil[OF pr]
  from old have o: "name p \<noteq> []" "description p \<noteq> []" "sku p \<noteq> []" "category p \<noteq> []"
    "0 \<le> quantity p" "unit p \<noteq> []"
    by (simp_all add: validate_saved_Nil)
  have "name (apply_update now b p) \<noteq> []"
    using e(1) o(1) by (cases "b_name b") (simp_all add: apply_update_def)
  moreover have "description (apply_update now b p) \<noteq> []"
    using e(2) o(2) by (cases "b_description b") (simp_all add: apply_update_def)
  moreover have "sku (apply_update now b p) \<noteq> []"
    using e(3) o(3) by (cases "b_sku b") (simp_all add: apply_update_def)
  moreover have "category (apply_update now b p) \<noteq> []"
    using e(4) o(4) by (cases "b_category b") (simp_all add: apply_update_def)
  moreover have "unit (apply_update now b p) \<noteq> []"
    using e(5) o(6) by (cases "b_unit b") (simp_all add: apply_update_def)
  moreover have "0 \<le> quantity (apply_update now b p)"
    using e(6) o(5) by (cases "b_quantity b") (simp_all add: apply_update_def)
  ultimately show ?thesis by (simp add: validate_saved_Nil)
qed

lemma replaceById_valid:
  "\<forall>p\<in>set ps. validate_saved p = [] \<Longrightarrow> validate_saved p' = [] \<Longrightarrow>
     \<forall>p\<in>set (replaceById ps j p'). validate_saved p = []"
  by (auto simp: replaceById_def)


lemma createProduct_state:
  "fst (createProduct now new_id s u b) = s \<or>
   (\<exists>p. validate_new (cast_body b) = [] \<and>
        build_product now new_id (user_id u) (cast_body b) = Some p \<and>
        fst (createProduct now new_id s u b) = s\<lparr>products := products s @ [p]\<rparr>)"
  by (cases "validate_new (cast_body b) = []";
      cases "build_product now new_id (user_id u) (cast_body b)")
     (simp_all add: createProduct_def Let_def)


lemma deleteProduct_state:
  "fst (deleteProduct now s u idp) = s \<or>
   (\<exists>j e. findById (products s) j = Some e \<and>
          fst (deleteProduct now s u idp) =
            s\<lparr>products := replaceById (products s) j (e\<lparr>isActive := False, updatedAt := now\<rparr>)\<rparr>)"
proof (cases idp)
  case (InvalidId t)
  then show ?thesis by (simp add: deleteProduct_def)
next
  case (ObjectId j)
  then show ?thesis
    by (cases "findById (products s) j") (auto simp: deleteProduct_def Let_def)
qed


lemma updateProduct_state:
  "fst (updateProduct now s u idp b) = s \<or>
   (\<exists>j e. findById (products s) j = Some e \<and> present_errors (cast_body b) = [] \<and>
          fst (updateProduct now s u idp b) =
            s\<lparr>products := replaceById (products s) j (apply_update now (cast_body b) e)\<rparr>)"
proof (cases idp)
  case (InvalidId t)
  then show ?thesis by (simp add: updateProduct_def)
next
  case (ObjectId j)
  then show ?thesis
    by (cases "findById (products s) j") (auto simp: updateProduct_def Let_def)
qed


lemma updateQuantity_rejected:
  "\<not> (\<exists>q. qb_quantity qb = Some (Num q) \<and> 0 \<le> q) \<Longrightarrow>
     fst (updateQuantity now s u idp qb) = s"
proof (cases "qb_quantity qb")
  case None
  then show ?thesis by (simp add: updateQuantity_def)
next
  case (Some v)
  assume "\<not> (\<exists>q. qb_quantity qb = Some (Num q) \<and> 0 \<le> q)"
  with Some show ?thesis by (cases v) (simp_all add: updateQuantity_def not_le)
qed


lemma updateQuantity_owned:
  assumes "qb_quantity qb = Some (Num q)" "0 \<le> q" "findById (products s) j = Some e"
    and "createdBy e = user_id u"
    and "n = newQuantity (case qb_operation qb of None \<Rightarrow> ''set'' | Some x \<Rightarrow> x) (quantity e) q"
    and "p' = (if n = quantity e then e else e\<lparr>quantity := n, updatedAt := now\<rparr>)"
  shows "fst (updateQuantity now s u (ObjectId j) qb) =
           (if validate_saved p' \<noteq> [] then s
            else s\<lparr>products := replaceById (products s) j p'\<rparr>)"
  using assms by (simp add: updateQuantity_def Let_def)


lemma updateQuantity_state:
  "fst (updateQuantity now s u idp qb) = s \<or>
   (\<exists>j p'. validate_saved p' = [] \<and>
          fst (updateQuantity now s u idp qb) = s\<lparr>products := replaceById (products s) j p'\<rparr>)"
proof (cases "\<exists>q. qb_quantity qb = Some (Num q) \<and> 0 \<le> q")
  case False
  then show ?thesis by (simp add: updateQuantity_rejected)
next
  case True
  then obtain q where q: "qb_quantity qb = Some (Num q)" "0 \<le> q" by blast
  show ?thesis
  proof (cases idp)
    case (InvalidId t)
    with q show ?thesis by (simp add: updateQuantity_def)
  next
    case (ObjectId j)
    show ?thesis
    proof (cases "findById (products s) j")
      case None
      with q ObjectId show ?thesis by (simp add: updateQuantity_def)
    next
      case (Some e)
      show ?thesis
      proof (cases "createdBy e = user_id u")
        case False
        with q ObjectId Some show ?thesis by (simp add: updateQuantity_def)
      next
        case True
        from updateQuantity_owned[OF q Some True refl refl, of now] ObjectId
        show ?thesis by (metis (no_types))
      qed
    qed
  qed
qed


lemma step_valid:
  assumes inv: "\<forall>p\<in>set (products s). validate_saved p = []"
  shows "\<forall>p\<in>set (products (step s x)). validate_saved p = []"
proof (cases x)
  case (Create now new_id u b)
  from createProduct_state[of now new_id s u b] show ?thesis
  proof
    assume "fst (createProduct now new_id s u b) = s"
    with inv Create show ?thesis by simp
  next
    assume "\<exists>p. validate_new (cast_body b) = [] \<and>
        build_product now new_id (user_id u) (cast_body b) = Some p \<and>
        fst (createProduct now new_id s u b) = s\<lparr>products := products s @ [p]\<rparr>"
    then obtain p where p: "validate_new (cast_body b) = []"
      "build_product now new_id (user_id u) (cast_body b) = Some p"
      "fst (createProduct now new_id s u b) = s\<lparr>products := products s @ [p]\<rparr>" by blast
    from build_product_valid[OF p(1,2)] inv Create p(3) show ?thesis by simp
  qed
next
  case (List u q)
  with inv show ?thesis by simp
next
  case (Get u idp)
  with inv show ?thesis by simp
next
  case (Stats u)
  with inv show ?thesis by simp
next
  case (Delete now u idp)
  from deleteProduct_state[of now s u idp] show ?thesis
  proof
    assume "fst (deleteProduct now s u idp) = s"
    with inv Delete show ?thesis by simp
  next
    assume "\<exists>j e. findById (products s) j = Some e \<and>
          fst (deleteProduct now s u idp) =
            s\<lparr>products := replaceById (products s) j (e\<lparr>isActive := False, updatedAt := now\<rparr>)\<rparr>"
    then obtain j e where e: "findById (products s) j = Some e"
      "fst (deleteProduct now s u idp) =
            s\<lparr>products := replaceById (products s) j (e\<lparr>isActive := False, updatedAt := now\<rparr>)\<rparr>"
      by blast
    from inv findById_mem[OF e(1)] have "validate_saved e = []" by blast
    then have "validate_saved (e\<lparr>isActive := False, updatedAt := now\<rparr>) = []"
      by (simp add: validate_saved_def)
    from replaceById_valid[OF inv this] Delete e(2) show ?thesis by simp
  qed
next
  case (Quantity now u idp qb)
  from updateQuantity_state[of now s u idp qb] show ?thesis
  proof
    assume "fst (updateQuantity now s u idp qb) = s"
    with inv Quantity show ?thesis by simp
  next
    assume "\<exists>j p'. validate_saved p' = [] \<and>
          fst (updateQuantity now s u idp qb) = s\<lparr>products := replaceById (products s) j p'\<rparr>"
    then obtain j p' where p': "validate_saved p' = []"
      "fst (updateQuantity now s u idp qb) = s\<lparr>products := replaceById (products s) j p'\<rparr>"
      by blast
    from replaceById_valid[OF inv p'(1)] Quantity p'(2) show ?thesis by simp
  qed
next
  case (Update now u idp b)
  from updateProduct_state[of now s u idp b] show ?thesis
  proof
    assume "fst (updateProduct now s u idp b) = s"
    with inv Update show ?thesis by simp
  next
    assume "\<exists>j e. findById (products s) j = Some e \<and> present_errors (cast_body b) = [] \<and>
          fst (updateProduct now s u idp b) =
            s\<lparr>products := replaceById (products s) j (apply_update now (cast_body b) e)\<rparr>"
    then obtain j e where e: "findById (products s) j = Some e"
      "present_errors (cast_body b) = []"
      "fst (updateProduct now s u idp b) =
            s\<lparr>products := replaceById (products s) j (apply_update now (cast_body b) e)\<rparr>"
      by blast
    from inv findById_mem[OF e(1)] have "validate_saved e = []" by blast
    from replaceById_valid[OF inv apply_update_valid[OF e(2) this]] Update e(3)
    show ?thesis by simp
  qed
qed


lemma run_valid:
  "\<forall>p\<in>set (products s). validate_saved p = [] \<Longrightarrow>
     \<forall>p\<in>set (products (run s ops)). validate_saved p = []"
proof (induction ops arbitrary: s)
  case Nil
  then show ?case by simp
next
  case (Cons x xs)
  from Cons.IH[OF step_valid[OF Cons.prems]] show ?case by simp
qed

subsection \<open>Quantity adjustment\<close>





lemma findById_store: "findById (products store) 10 = Some laptop"
  by (simp add: findById_def store_def laptop_def)



subsection \<open>The caller that \<open>auth\<close> attaches\<close>

lemma findUserById_id: "findUserById us i = Some u \<Longrightarrow> user_id u = i"
  by (auto simp: findUserById_def dest: find_Some_iff[THEN iffD1])

lemma auth_success:
  assumes "auth verify s header = Inr u"
  shows "\<exists>stored. findUserById (users s) (user_id u) = Some stored \<and> u = toJSON stored \<and>
           user_isActive stored"
proof (cases header)
  case None
  with assms show ?thesis by (simp add: auth_def)
next
  case (Some h)
  let ?t = "replace_first ''Bearer '' [] h"
  from assms Some have ne: "?t \<noteq> []" by (auto simp: auth_def split: if_splits)
  show ?thesis
  proof (cases "verify ?t")
    case (Throws n)
    with assms Some ne show ?thesis by (simp add: auth_def split: if_splits)
  next
    case (Payload uid)
    show ?thesis
    proof (cases uid)
      case None
      with assms Some ne Payload show ?thesis by (simp add: auth_def)
    next
      case (Some idp)
      show ?thesis
      proof (cases idp)
        case (InvalidId x)
        with assms \<open>header = Some h\<close> ne Payload Some show ?thesis by (simp add: auth_def)
      next
        case (ObjectId i)
        show ?thesis
        proof (cases "findUserById (users s) i")
          case None
          with assms \<open>header = Some h\<close> ne Payload Some ObjectId show ?thesis
            by (simp add: auth_def)
        next
          case (Some stored)
          with assms \<open>header = Some h\<close> ne Payload \<open>uid = Some idp\<close> ObjectId
          have "user_isActive stored \<and> u = toJSON stored"
            by (simp add: auth_def split: if_splits)
          moreover have "user_id u = i"
            using calculation findUserById_id[OF Some] by (simp add: toJSON_def)
          ultimately show ?thesis using Some by auto
        qed
      qed
    qed
  qed
qed

lemma populate_found:
  "findUserById us (createdBy p) = Some u \<Longrightarrow>
     populate us p = Some \<lparr>pu_id = createdBy p, pu_username = username u, pu_email = email u\<rparr>"
  by (simp add: populate_def findUserById_id)


lemma auth_alice: "auth (\<lambda>t. Payload (Some (ObjectId 1))) store (Some ''Bearer token'') = Inr (toJSON alice)"
  by (simp add: auth_def store_def findUserById_def alice_def bob_def)

lemma findById_archived: "findById (products store) 11 = Some archived"
  by (simp add: findById_def store_def laptop_def archived_def)


lemma findById_none: "findById (products store) 99 = None"
  by (simp add: findById_def store_def laptop_def archived_def)


subsection \<open>What a list contains\<close>

lemma set_insert_by: "set (insert_by le x xs) = insert x (set xs)"
  by (induction xs) auto

lemma set_sort_by: "set (sort_by le xs) = set xs"
  by (induction xs) (auto simp: sort_by_def set_insert_by)

lemma set_sort_products: "set (sort_products sortBy sortOrder ps) = set ps"
  by (simp add: sort_products_def set_sort_by)

lemma set_skip_limit: "set (skip_limit skip limit xs) \<subseteq> set xs"
  by (auto simp: skip_limit_def Let_def dest: in_set_takeD in_set_dropD)

lemma listed_getProducts:
  "listed (getProducts rx s req_user q) =
     (if \<not> rx_ok rx (q_category q) \<or> \<not> rx_ok rx (q_search q) \<or> (q_page q - 1) * q_limit q < 0
      then []
      else skip_limit ((q_page q - 1) * q_limit q) (q_limit q)
             (sort_products (q_sortBy q) (q_sortOrder q)
                (filter (list_filter rx req_user q) (products s))))"
  by (simp add: listed_def getProducts_def Let_def comp_def)

lemma listed_matches:
  assumes "p \<in> set (listed (getProducts rx s req_user q))"
  shows "p \<in> set (products s) \<and> list_filter rx req_user q p"
proof -
  from assms have "p \<in> set (skip_limit ((q_page q - 1) * q_limit q) (q_limit q)
                      (sort_products (q_sortBy q) (q_sortOrder q)
                         (filter (list_filter rx req_user q) (products s))))"
    by (simp add: listed_getProducts split: if_splits)
  then have "p \<in> set (sort_products (q_sortBy q) (q_sortOrder q)
                         (filter (list_filter rx req_user q) (products s)))"
    using set_skip_limit by (rule subsetD[rotated])
  then show ?thesis by (simp add: set_sort_products)
qed

subsection \<open>Lookup of one product\<close>

text \<open>
  C10. \<open>getProduct\<close> does not look at \<open>isActive\<close>: for a product that is not active,
  the request of its owner (the user that \<open>auth\<close> attached) is answered with 200 and
  the document, while no list of that owner contains the document.
\<close>

theorem getProduct_ignores_isActive:
  assumes caller: "auth verify s header = Inr req_user"
    and found: "findById (products s) i = Some p"
    and owner: "createdBy p = user_id req_user"
    and inactive: "\<not> isActive p"
  shows "(\<exists>c. getProduct s req_user (ObjectId i) =
            Response 200 (PopulatedBody ''Product retrieved successfully'' p (Some c))) \<and>
         p \<notin> set (listed (getProducts rx s req_user q))"
proof
  from auth_success[OF caller] obtain stored where
    "findUserById (users s) (user_id req_user) = Some stored" by blast
  then have "findUserById (users s) (createdBy p) = Some stored" by (simp add: owner)
  from populate_found[OF this]
  show "\<exists>c. getProduct s req_user (ObjectId i) =
            Response 200 (PopulatedBody ''Product retrieved successfully'' p (Some c))"
    using found owner by (simp add: getProduct_def)
next
  have "\<not> list_filter rx req_user q p" using inactive by (simp add: list_filter_def)
  then show "p \<notin> set (listed (getProducts rx s req_user q))"
    using listed_matches by blast
qed


theorem getProduct_ignores_isActive_witness:
  "(\<exists>c. getProduct store (toJSON alice) (ObjectId 11) =
            Response 200 (PopulatedBody ''Product retrieved successfully'' archived (Some c))) \<and>
   archived \<notin> set (listed (getProducts (\<lambda>pat. None) store (toJSON alice) default_query))"
proof -
  have owner: "createdBy archived = user_id (toJSON alice)"
    by (simp add: archived_def alice_def toJSON_def)
  have inactive: "\<not> isActive archived" by (simp add: archived_def)
  from getProduct_ignores_isActive[OF auth_alice findById_archived owner inactive]
  show ?thesis .
qed


subsection \<open>Existence is checked before ownership\<close>

lemma status_not_found: "status not_found = 404"
  by (simp add: not_found_def)

lemma status_access_denied: "status (access_denied m) = 403"
  by (simp add: access_denied_def)

lemma status_invalid_id: "status invalid_id = 400"
  by (simp add: invalid_id_def)

lemma getProduct_missing:
  "findById (products s) i = None \<Longrightarrow> getProduct s u (ObjectId i) = not_found"
  by (simp add: getProduct_def)

lemma updateProduct_missing:
  "findById (products s) i = None \<Longrightarrow> updateProduct now s u (ObjectId i) b = (s, not_found)"
  by (simp add: updateProduct_def)

lemma deleteProduct_missing:
  "findById (products s) i = None \<Longrightarrow> deleteProduct now s u (ObjectId i) = (s, not_found)"
  by (simp add: deleteProduct_def)

lemma updateQuantity_missing:
  "findById (products s) i = None \<Longrightarrow> 0 \<le> a \<Longrightarrow>
     updateQuantity now s u (ObjectId i) \<lparr>qb_quantity = Some (Num a), qb_operation = operation\<rparr>
       = (s, not_found)"
  by (simp add: updateQuantity_def)

lemma getProduct_foreign:
  "findById (products s) i = Some p \<Longrightarrow> createdBy p \<noteq> user_id u \<Longrightarrow>
   findUserById (users s) (createdBy p) = Some c \<Longrightarrow>
     getProduct s u (ObjectId i) = access_denied ''You can only access your own products''"
  by (simp add: getProduct_def populate_found)

lemma updateProduct_foreign:
  "findById (products s) i = Some p \<Longrightarrow> createdBy p \<noteq> user_id u \<Longrightarrow>
     updateProduct now s u (ObjectId i) b = (s, access_denied ''You can only update your own products'')"
  by (simp add: updateProduct_def)

lemma deleteProduct_foreign:
  "findById (products s) i = Some p \<Longrightarrow> createdBy p \<noteq> user_id u \<Longrightarrow>
     deleteProduct now s u (ObjectId i) = (s, access_denied ''You can only delete your own products'')"
  by (simp add: deleteProduct_def)

lemma updateQuantity_foreign:
  "findById (products s) i = Some p \<Longrightarrow> createdBy p \<noteq> user_id u \<Longrightarrow> 0 \<le> a \<Longrightarrow>
     updateQuantity now s u (ObjectId i) \<lparr>qb_quantity = Some (Num a), qb_operation = operation\<rparr>
       = (s, access_denied ''You can only update quantity for your own products'')"
  by (simp add: updateQuantity_def)

lemma getProduct_403:
  "status (getProduct s u idp) = 403 \<Longrightarrow> (\<exists>j x. idp = ObjectId j \<and> findById (products s) j = Some x \<and> createdBy x \<noteq> user_id u)"
  by (cases idp; cases "findById (products s) (case idp of ObjectId i \<Rightarrow> i | _ \<Rightarrow> 0)")
     (auto simp: getProduct_def status_not_found status_invalid_id
           populate_def dest: findUserById_id split: option.splits if_splits)

lemma deleteProduct_403:
  "status (snd (deleteProduct now s u idp)) = 403 \<Longrightarrow> (\<exists>j x. idp = ObjectId j \<and> findById (products s) j = Some x \<and> createdBy x \<noteq> user_id u)"
  by (cases idp; cases "findById (products s) (case idp of ObjectId i \<Rightarrow> i | _ \<Rightarrow> 0)")
     (auto simp: deleteProduct_def status_not_found status_invalid_id Let_def
           split: if_splits)

lemma updateProduct_403:
  "status (snd (updateProduct now s u idp b)) = 403 \<Longrightarrow> (\<exists>j x. idp = ObjectId j \<and> findById (products s) j = Some x \<and> createdBy x \<noteq> user_id u)"
  by (cases idp; cases "findById (products s) (case idp of ObjectId i \<Rightarrow> i | _ \<Rightarrow> 0)")
     (auto simp: updateProduct_def status_not_found status_invalid_id Let_def
           split: if_splits)

lemma updateQuantity_403:
  "status (snd (updateQuantity now s u idp qb)) = 403 \<Longrightarrow> (\<exists>j x. idp = ObjectId j \<and> findById (products s) j = Some x \<and> createdBy x \<noteq> user_id u)"
  by (cases idp; cases "findById (products s) (case idp of ObjectId i \<Rightarrow> i | _ \<Rightarrow> 0)")
     (auto simp: updateQuantity_def status_not_found status_invalid_id Let_def
           split: if_splits option.splits json.splits)

text \<open>
  Where the claim C1 fails as it is stated: on an id for which no product exists,
  \<open>updateQuantity\<close> answers 400 to a negative amount and \<open>getProduct\<close> answers 400 to
  an id that is not an ObjectId; and on a product of somebody else whose creator is
  not a stored user (here after its owner's update of \<open>createdBy\<close>), \<open>getProduct\<close>
  answers 500.
\<close>

theorem not_found_claim_counterexample:
  "findById (products store) 99 = None \<and>
   status (snd (updateQuantity 5 store bob (ObjectId 99)
                  \<lparr>qb_quantity = Some (Num (- 1)), qb_operation = Some ''add''\<rparr>)) = 400 \<and>
   status (getProduct store bob (InvalidId ''invalid-id'')) = 400 \<and>
   findById (products (fst (updateProduct 6 store alice (ObjectId 10)
                              (no_fields\<lparr>b_createdBy := Some 77\<rparr>)))) 10 \<noteq> None \<and>
   status (getProduct (fst (updateProduct 6 store alice (ObjectId 10)
                              (no_fields\<lparr>b_createdBy := Some 77\<rparr>))) bob (ObjectId 10)) = 500"
  by (simp add: updateQuantity_def getProduct_def status_invalid_id updateProduct_def
        findById_def store_def laptop_def archived_def alice_def bob_def no_fields_def
        cast_body_def present_errors_def str_errors_def maxlength_def min0_def
        replaceById_def apply_update_def populate_def findUserById_def Let_def)

text \<open>
  C1, amended. For an id that casts to an ObjectId: if no product has it, \<open>getProduct\<close>,
  \<open>updateProduct\<close> and \<open>deleteProduct\<close> answer 404 and leave the store as it is, and
  so does \<open>updateQuantity\<close> for an amount that is a number and not negative; if a
  product has it and was created by somebody else, \<open>updateProduct\<close>, \<open>deleteProduct\<close>
  and \<open>updateQuantity\<close> (same amounts) answer 403 and leave the store as it is, and
  so does \<open>getProduct\<close> when the creator is a stored user. Whenever one of the four
  answers 403, a product with that id exists and belongs to somebody else.
\<close>

theorem existence_checked_before_ownership:
  "(findById (products s) i = None \<longrightarrow>
      status not_found = 404 \<and>
      getProduct s u (ObjectId i) = not_found \<and>
      updateProduct now s u (ObjectId i) b = (s, not_found) \<and>
      deleteProduct now s u (ObjectId i) = (s, not_found) \<and>
      (0 \<le> a \<longrightarrow>
         updateQuantity now s u (ObjectId i)
           \<lparr>qb_quantity = Some (Num a), qb_operation = operation\<rparr> = (s, not_found))) \<and>
   (findById (products s) i = Some p \<and> createdBy p \<noteq> user_id u \<longrightarrow>
      (findUserById (users s) (createdBy p) \<noteq> None \<longrightarrow>
         getProduct s u (ObjectId i) = access_denied ''You can only access your own products'') \<and>
      updateProduct now s u (ObjectId i) b =
        (s, access_denied ''You can only update your own products'') \<and>
      deleteProduct now s u (ObjectId i) =
        (s, access_denied ''You can only delete your own products'') \<and>
      (0 \<le> a \<longrightarrow>
         updateQuantity now s u (ObjectId i)
           \<lparr>qb_quantity = Some (Num a), qb_operation = operation\<rparr> =
           (s, access_denied ''You can only update quantity for your own products'')) \<and>
      status (access_denied m) = 403) \<and>
   (status (getProduct s u idp) = 403 \<or>
    status (snd (updateProduct now s u idp b)) = 403 \<or>
    status (snd (deleteProduct now s u idp)) = 403 \<or>
    status (snd (updateQuantity now s u idp qb)) = 403 \<longrightarrow>
      (\<exists>j x. idp = ObjectId j \<and> findById (products s) j = Some x \<and> createdBy x \<noteq> user_id u))"
proof (intro conjI impI)
  assume "status (getProduct s u idp) = 403 \<or>
    status (snd (updateProduct now s u idp b)) = 403 \<or>
    status (snd (deleteProduct now s u idp)) = 403 \<or>
    status (snd (updateQuantity now s u idp qb)) = 403"
  then show "\<exists>j x. idp = ObjectId j \<and> findById (products s) j = Some x \<and> createdBy x \<noteq> user_id u"
    using getProduct_403 updateProduct_403 deleteProduct_403 updateQuantity_403 by blast
qed (auto simp: status_not_found status_access_denied getProduct_missing updateProduct_missing
       deleteProduct_missing updateQuantity_missing getProduct_foreign updateProduct_foreign
       deleteProduct_foreign updateQuantity_foreign)


theorem existence_checked_before_ownership_witness:
  "getProduct store bob (ObjectId 99) = not_found \<and>
   updateQuantity 5 store bob (ObjectId 99) \<lparr>qb_quantity = Some (Num 3), qb_operation = None\<rparr>
     = (store, not_found) \<and>
   getProduct store bob (ObjectId 10) = access_denied ''You can only access your own products'' \<and>
   deleteProduct 5 store bob (ObjectId 10)
     = (store, access_denied ''You can only delete your own products'') \<and>
   (\<exists>j x. ObjectId 10 = ObjectId j \<and> findById (products store) j = Some x \<and>
          createdBy x \<noteq> user_id bob)"
proof -
  have foreign: "createdBy laptop \<noteq> user_id bob" by (simp add: laptop_def bob_def)
  have creator: "findUserById (users store) (createdBy laptop) \<noteq> None"
    by (simp add: findUserById_def store_def laptop_def alice_def)
  have amount: "(0::rat) \<le> 3" by simp
  note missing = existence_checked_before_ownership
    [of store 99 bob 5 no_fields 3 None laptop "[]" "ObjectId 99"
        "\<lparr>qb_quantity = None, qb_operation = None\<rparr>"]
  note present = existence_checked_before_ownership
    [of store 10 bob 5 no_fields 3 None laptop "[]" "ObjectId 10"
        "\<lparr>qb_quantity = None, qb_operation = None\<rparr>"]
  have denied: "status (getProduct store bob (ObjectId 10)) = 403"
    using present findById_store foreign creator by (simp add: status_access_denied)
  show ?thesis
    using missing present findById_none findById_store foreign creator amount denied
    by simp
qed

subsection \<open>The \<open>isActive\<close> flag along a sequence of operations\<close>

lemma replaceById_inactive:
  assumes ex: "\<exists>p\<in>set ps. product_id p = i"
    and off: "\<forall>p\<in>set ps. product_id p = i \<longrightarrow> \<not> isActive p"
    and found: "findById ps j = Some e"
    and id: "product_id p' = j"
    and new: "j = i \<longrightarrow> \<not> isActive p'"
  shows "(\<exists>p\<in>set (replaceById ps j p'). product_id p = i) \<and>
         (\<forall>p\<in>set (replaceById ps j p'). product_id p = i \<longrightarrow> \<not> isActive p)"
proof
  from ex obtain x where x: "x \<in> set ps" "product_id x = i" by blast
  have "(if product_id x = j then p' else x) \<in> set (replaceById ps j p')"
    unfolding replaceById_def set_map using x(1) by (rule image_eqI[rotated]) simp
  moreover have "product_id (if product_id x = j then p' else x) = i"
    using x id by simp
  ultimately show "\<exists>p\<in>set (replaceById ps j p'). product_id p = i" by blast
next
  show "\<forall>p\<in>set (replaceById ps j p'). product_id p = i \<longrightarrow> \<not> isActive p"
    using off id new by (auto simp: replaceById_def split: if_splits)
qed

lemma step_inactive:
  assumes ex: "\<exists>p\<in>set (products s). product_id p = i"
    and off: "\<forall>p\<in>set (products s). product_id p = i \<longrightarrow> \<not> isActive p"
    and quiet: "\<not> activates i x"
  shows "(\<exists>p\<in>set (products (step s x)). product_id p = i) \<and>
         (\<forall>p\<in>set (products (step s x)). product_id p = i \<longrightarrow> \<not> isActive p)"
proof (cases x)
  case (Create now new_id u b)
  show ?thesis
  proof (cases "new_id = i")
    case True
    with ex have "new_id \<in> set (map product_id (products s))" by auto
    then have "step s x = s"
      by (simp add: Create createProduct_def Let_def split: option.splits)
    with ex off show ?thesis by simp
  next
    case False
    have "build_product now new_id (user_id u) (cast_body b) = Some p \<Longrightarrow> product_id p = new_id" for p
      by (auto simp: build_product_def split: option.splits)
    with False ex off show ?thesis
      by (auto simp: Create createProduct_def Let_def split: option.splits if_splits)
  qed
next
  case (List u q)
  with ex off show ?thesis by simp
next
  case (Get u idp)
  with ex off show ?thesis by simp
next
  case (Stats u)
  with ex off show ?thesis by simp
next
  case (Delete now u idp)
  show ?thesis
  proof (cases idp)
    case (InvalidId t)
    with Delete ex off show ?thesis by (simp add: deleteProduct_def)
  next
    case (ObjectId j)
    show ?thesis
    proof (cases "findById (products s) j")
      case None
      with Delete ObjectId ex off show ?thesis by (simp add: deleteProduct_def)
    next
      case (Some e)
      show ?thesis
      proof (cases "createdBy e \<noteq> user_id u")
        case True
        with Delete ObjectId Some ex off show ?thesis by (simp add: deleteProduct_def)
      next
        case False
        let ?p = "e\<lparr>isActive := False, updatedAt := now\<rparr>"
        have "step s x = s\<lparr>products := replaceById (products s) j ?p\<rparr>"
          using Delete ObjectId Some False by (simp add: deleteProduct_def Let_def)
        moreover have "product_id ?p = j" using findById_id[OF Some] by simp
        ultimately show ?thesis
          using replaceById_inactive[OF ex off Some, of ?p] by simp
      qed
    qed
  qed
next
  case (Quantity now u idp qb)
  show ?thesis
  proof (cases idp)
    case (InvalidId t)
    with Quantity ex off show ?thesis
      by (simp add: updateQuantity_def split: option.splits json.splits)
  next
    case (ObjectId j)
    show ?thesis
    proof (cases "findById (products s) j")
      case None
      with Quantity ObjectId ex off show ?thesis
        by (simp add: updateQuantity_def split: option.splits json.splits)
    next
      case (Some e)
      have keep: "\<not> isActive e" if "j = i"
        using off findById_mem[OF Some] findById_id[OF Some] that by auto
      have "step s x = s \<or>
            (\<exists>p'. step s x = s\<lparr>products := replaceById (products s) j p'\<rparr> \<and>
                  product_id p' = j \<and> isActive p' = isActive e)"
        using Quantity ObjectId Some findById_id[OF Some]
        by (auto simp: updateQuantity_def Let_def split: option.splits json.splits)
      then show ?thesis
      proof
        assume "step s x = s"
        with ex off show ?thesis by simp
      next
        assume "\<exists>p'. step s x = s\<lparr>products := replaceById (products s) j p'\<rparr> \<and>
                  product_id p' = j \<and> isActive p' = isActive e"
        then obtain p' where p': "step s x = s\<lparr>products := replaceById (products s) j p'\<rparr>"
          "product_id p' = j" "isActive p' = isActive e" by blast
        show ?thesis
          using replaceById_inactive[OF ex off Some p'(2)] keep p'(1,3) by simp
      qed
    qed
  qed
next
  case (Update now u idp b)
  show ?thesis
  proof (cases idp)
    case (InvalidId t)
    with Update ex off show ?thesis by (simp add: updateProduct_def)
  next
    case (ObjectId j)
    show ?thesis
    proof (cases "findById (products s) j")
      case None
      with Update ObjectId ex off show ?thesis by (simp add: updateProduct_def)
    next
      case (Some e)
      let ?p = "apply_update now (cast_body b) e"
      have keep: "\<not> isActive ?p" if "j = i"
      proof -
        from that have "\<not> isActive e"
          using off findById_mem[OF Some] findById_id[OF Some] by auto
        moreover from that quiet Update ObjectId have "b_isActive b \<noteq> Some True" by simp
        ultimately show ?thesis
          by (cases "b_isActive b") (auto simp: apply_update_def cast_body_def)
      qed
      have id: "product_id ?p = j"
        using findById_id[OF Some] by (simp add: apply_update_def)
      have "step s x = s \<or> step s x = s\<lparr>products := replaceById (products s) j ?p\<rparr>"
        using Update ObjectId Some by (simp add: updateProduct_def Let_def)
      then show ?thesis
      proof
        assume "step s x = s"
        with ex off show ?thesis by simp
      next
        assume "step s x = s\<lparr>products := replaceById (products s) j ?p\<rparr>"
        then show ?thesis
          using replaceById_inactive[OF ex off Some id] keep by simp
      qed
    qed
  qed
qed

lemma run_inactive:
  assumes "\<exists>p\<in>set (products s). product_id p = i"
    and "\<forall>p\<in>set (products s). product_id p = i \<longrightarrow> \<not> isActive p"
    and "\<forall>x\<in>set ops. \<not> activates i x"
  shows "(\<exists>p\<in>set (products (run s ops)). product_id p = i) \<and>
         (\<forall>p\<in>set (products (run s ops)). product_id p = i \<longrightarrow> \<not> isActive p)"
  using assms
proof (induction ops arbitrary: s)
  case Nil
  then show ?case by simp
next
  case (Cons x xs)
  from Cons.prems(3) have quiet: "\<not> activates i x" and rest: "\<forall>y\<in>set xs. \<not> activates i y"
    by simp_all
  from step_inactive[OF Cons.prems(1,2) quiet]
  have "\<exists>p\<in>set (products (step s x)). product_id p = i"
    and "\<forall>p\<in>set (products (step s x)). product_id p = i \<longrightarrow> \<not> isActive p"
    by blast+
  from Cons.IH[OF this rest] show ?case by simp
qed






subsection \<open>The example of the specification\<close>

text \<open>The definitions that the evaluation of a request on the example store unfolds.\<close>

lemmas eval_defs =
  findById_def store_def laptop_def archived_def alice_def bob_def no_fields_def
  laptop_request_def full_request_def default_query_def
  cast_body_def present_errors_def missing_errors_def missing_def validate_new_def
  str_errors_def maxlength_def min0_def replaceById_def apply_update_def 
  trim_def is_space_def uppercase_def upper_char_def escape_def escape_char_def
  productCreate_def product_chains_def name_chain_def price_chain_def quantity_chain_def
  is_int_def post_products_def createProduct_def build_product_def
  getInventoryStats_def owned_active_def group_stats_def zero_stats_def group_category_def
  sort_by_def


text \<open>
  C6. The request \<open>POST /api/products\<close> with the body of the example, name, price
  and quantity, passes the validation chain of the route, but \<open>save()\<close> rejects the
  document: the schema requires description, SKU, category, cost and unit. Nothing is
  stored, and the statistics of the caller count no product.
\<close>

theorem laptop_example_rejected:
  "post_products 3 12 store bob laptop_request =
     (store, Inl (SchemaValidationError
        [''Product description is required'', ''SKU is required'', ''Category is required'',
         ''Cost is required'', ''Unit is required''])) \<and>
   getInventoryStats store bob =
     Response 200 (StatsBody ''Inventory statistics retrieved successfully''
       \<lparr>totalProducts = 0, totalValue = 0, totalCost = 0, lowStockProducts = 0,
        outOfStockProducts = 0\<rparr> [])"
  by (simp add: eval_defs Let_def)


text \<open>With the other required paths in the body the product is created, and the
  statistics of the caller are those of the example.\<close>

lemma laptop_example_with_required_fields:
  "\<exists>s' p st cs. post_products 3 12 store bob full_request =
        (s', Inr (Response 201 (ProductBody ''Product created successfully'' p))) \<and>
      getInventoryStats s' bob =
        Response 200 (StatsBody ''Inventory statistics retrieved successfully'' st cs) \<and>
      totalProducts st = 1 \<and> totalValue st = 9999.9"
  by (simp add: eval_defs Let_def)


subsection \<open>The list of products\<close>

text \<open>
  Where the claim C7 fails: with the filter \<open>stockStatus=out-of-stock\<close> the list of a
  caller is empty, although the caller has created a product that is active.
\<close>

theorem list_claim_counterexample:
  "laptop \<in> set (products store) \<and> createdBy laptop = user_id alice \<and> isActive laptop \<and>
   listed (getProducts (\<lambda>pat. None) store alice
             (default_query\<lparr>q_stockStatus := Some ''out-of-stock''\<rparr>)) = []"
  by (simp add: eval_defs listed_def getProducts_def rx_ok_def list_filter_def stock_filter_def
         skip_limit_def sort_products_def Let_def)

lemma length_insert_by: "length (insert_by le x xs) = Suc (length xs)"
  by (induction xs) auto

lemma length_sort_by: "length (sort_by le xs) = length xs"
  by (induction xs) (auto simp: sort_by_def length_insert_by)

lemma length_sort_products: "length (sort_products sortBy sortOrder ps) = length ps"
  by (simp add: sort_products_def length_sort_by)

lemma listed_complete:
  assumes "rx_ok rx (q_category q)" "rx_ok rx (q_search q)" "q_page q = 1"
    and "q_limit q = 0 \<or> int (length (filter (list_filter rx u q) (products s))) \<le> \<bar>q_limit q\<bar>"
  shows "set (listed (getProducts rx s u q)) = {p \<in> set (products s). list_filter rx u q p}"
proof -
  let ?m = "sort_products (q_sortBy q) (q_sortOrder q) (filter (list_filter rx u q) (products s))"
  have "skip_limit 0 (q_limit q) ?m = ?m"
    using assms(4) by (auto simp: skip_limit_def Let_def length_sort_products)
  then have "listed (getProducts rx s u q) = ?m"
    using assms(1-3) by (simp add: listed_getProducts)
  then show ?thesis by (auto simp: set_sort_products)
qed

lemma deleteProduct_done:
  assumes "deleteProduct now s v (ObjectId i) = (s', r)" "status r = 200"
  shows "(\<exists>p\<in>set (products s'). product_id p = i) \<and>
         (\<forall>p\<in>set (products s'). product_id p = i \<longrightarrow> \<not> isActive p)"
proof (cases "findById (products s) i")
  case None
  with assms show ?thesis by (auto simp: deleteProduct_def status_not_found)
next
  case (Some e)
  show ?thesis
  proof (cases "createdBy e \<noteq> user_id v")
    case True
    with assms Some show ?thesis by (auto simp: deleteProduct_def status_access_denied)
  next
    case False
    let ?p = "e\<lparr>isActive := False, updatedAt := now\<rparr>"
    from assms Some False have s': "s' = s\<lparr>products := replaceById (products s) i ?p\<rparr>"
      by (auto simp: deleteProduct_def Let_def)
    have "findById (products s') i = Some ?p"
      using findById_replaceById[OF Some, of ?p] findById_id[OF Some] by (simp add: s')
    from findById_mem[OF this] have "\<exists>p\<in>set (products s'). product_id p = i"
      using findById_id[OF Some] by (intro bexI[of _ ?p]) simp_all
    moreover have "\<forall>p\<in>set (products s'). product_id p = i \<longrightarrow> \<not> isActive p"
      by (auto simp: s' replaceById_def)
    ultimately show ?thesis by blast
  qed
qed

text \<open>
  C7, amended. Every product of a list response was created by the caller, is active
  and matches the filters of the query; the response has exactly the matching
  products when the query asks for the first page and the limit does not cut it.
  After a product was soft-deleted, no list contains a product with its id, in any
  state that later calls reach without an update that carries \<open>isActive: true\<close> for it.
\<close>

theorem list_only_own_active:
  "(\<forall>p\<in>set (listed (getProducts rx s u q)).
      p \<in> set (products s) \<and> createdBy p = user_id u \<and> isActive p \<and> list_filter rx u q p) \<and>
   (rx_ok rx (q_category q) \<and> rx_ok rx (q_search q) \<and> q_page q = 1 \<and>
    (q_limit q = 0 \<or> int (length (filter (list_filter rx u q) (products s))) \<le> \<bar>q_limit q\<bar>) \<longrightarrow>
      set (listed (getProducts rx s u q)) = {p \<in> set (products s). list_filter rx u q p}) \<and>
   (deleteProduct now s v (ObjectId i) = (s', r) \<and> status r = 200 \<and>
    (\<forall>x\<in>set ops. \<not> activates i x) \<longrightarrow>
      (\<forall>p\<in>set (listed (getProducts rx (run s' ops) u q)). product_id p \<noteq> i))"
proof (intro conjI impI ballI)
  fix p assume "p \<in> set (listed (getProducts rx s u q))"
  from listed_matches[OF this]
  show "p \<in> set (products s)" "createdBy p = user_id u" "isActive p" "list_filter rx u q p"
    by (simp_all add: list_filter_def)
next
  assume "rx_ok rx (q_category q) \<and> rx_ok rx (q_search q) \<and> q_page q = 1 \<and>
    (q_limit q = 0 \<or> int (length (filter (list_filter rx u q) (products s))) \<le> \<bar>q_limit q\<bar>)"
  then show "set (listed (getProducts rx s u q)) = {p \<in> set (products s). list_filter rx u q p}"
    using listed_complete by blast
next
  fix p
  assume d: "deleteProduct now s v (ObjectId i) = (s', r) \<and> status r = 200 \<and>
    (\<forall>x\<in>set ops. \<not> activates i x)"
    and p: "p \<in> set (listed (getProducts rx (run s' ops) u q))"
  from d deleteProduct_done[of now s v i s' r]
  have "\<exists>p\<in>set (products s'). product_id p = i"
    and "\<forall>p\<in>set (products s'). product_id p = i \<longrightarrow> \<not> isActive p"
    by blast+
  from run_inactive[OF this] d
  have off: "\<forall>p\<in>set (products (run s' ops)). product_id p = i \<longrightarrow> \<not> isActive p" by blast
  from listed_matches[OF p] have "p \<in> set (products (run s' ops))" "isActive p"
    by (simp_all add: list_filter_def)
  with off show "product_id p \<noteq> i" by blast
qed

theorem list_only_own_active_witness:
  "set (listed (getProducts (\<lambda>pat. None) store alice default_query)) = {laptop} \<and>
   createdBy laptop = user_id alice \<and> isActive laptop \<and>
   status (snd (deleteProduct 8 store alice (ObjectId 10))) = 200 \<and>
   10 \<notin> product_id ` set (listed (getProducts (\<lambda>pat. None)
          (run (fst (deleteProduct 8 store alice (ObjectId 10)))
             [Quantity 9 alice (ObjectId 10)
                \<lparr>qb_quantity = Some (Num 3), qb_operation = Some ''add''\<rparr>])
          alice default_query))"
proof -
  let ?ops = "[Quantity 9 alice (ObjectId 10)
                \<lparr>qb_quantity = Some (Num 3), qb_operation = Some ''add''\<rparr>]"
  note t = list_only_own_active[of "\<lambda>pat. None" store alice default_query 8 alice 10
             "fst (deleteProduct 8 store alice (ObjectId 10))"
             "snd (deleteProduct 8 store alice (ObjectId 10))" ?ops]
  have ok: "rx_ok (\<lambda>pat. None) (q_category default_query) \<and>
            rx_ok (\<lambda>pat. None) (q_search default_query) \<and> q_page default_query = 1 \<and>
            (q_limit default_query = 0 \<or>
             int (length (filter (list_filter (\<lambda>pat. None) alice default_query) (products store)))
               \<le> \<bar>q_limit default_query\<bar>)"
    by (simp add: rx_ok_def default_query_def list_filter_def stock_filter_def store_def
          laptop_def archived_def alice_def)
  have matching: "{p \<in> set (products store). list_filter (\<lambda>pat. None) alice default_query p}
                  = {laptop}"
    by (auto simp: default_query_def list_filter_def stock_filter_def store_def
          laptop_def archived_def alice_def)
  have deleted: "status (snd (deleteProduct 8 store alice (ObjectId 10))) = 200"
    by (simp add: deleteProduct_def findById_store laptop_def alice_def Let_def)
  have quiet: "\<forall>x\<in>set ?ops. \<not> activates 10 x" by simp
  from t ok matching have one: "set (listed (getProducts (\<lambda>pat. None) store alice default_query)) = {laptop}"
    by simp
  then have "laptop \<in> set (listed (getProducts (\<lambda>pat. None) store alice default_query))"
    by simp
  with t have own: "createdBy laptop = user_id alice \<and> isActive laptop" by blast
  from t deleted quiet
  have "\<forall>p\<in>set (listed (getProducts (\<lambda>pat. None)
          (run (fst (deleteProduct 8 store alice (ObjectId 10))) ?ops)
          alice default_query)). product_id p \<noteq> 10"
    by simp
  then have gone: "10 \<notin> product_id ` set (listed (getProducts (\<lambda>pat. None)
          (run (fst (deleteProduct 8 store alice (ObjectId 10))) ?ops)
          alice default_query))"
    by auto
  from one own deleted gone show ?thesis by blast
qed

subsection \<open>Login\<close>




text \<open>The right password is answered with the user, without the password, and a
  token.\<close>

lemma login_succeeds:
  "\<exists>u t. login (\<lambda>c h. h = ''hash-of-'' @ c) (\<lambda>i. ''token'') store
     \<lparr>lb_email = ''alice@example.com'', lb_password = ''Password123''\<rparr> =
     Inr (Response 200 (AuthBody ''Login successful'' u t)) \<and> password u = None"
  by (simp add: login_def store_def alice_def bob_def toJSON_def)


subsection \<open>Registration\<close>

text \<open>
  Where the claim C5 fails: the requested email is held by the second user and the
  requested username by the first; \<open>findOne\<close> yields the first, whose email is
  another one, and the message names the username.
\<close>

theorem conflict_message_counterexample:
  "bob \<in> set (users store) \<and> email bob = ''bob@example.com'' \<and>
   register (\<lambda>p. ''hash-of-'' @ p) (\<lambda>i. ''token'') 3 store
     \<lparr>rb_username = ''alice'', rb_email = ''bob@example.com'', rb_password = ''Password123'',
      rb_role = None\<rparr> = (store, Inl (ConflictError ''Username is already taken''))"
  by (simp add: register_def store_def alice_def bob_def)


lemma find_first_match:
  assumes "\<exists>x\<in>set xs. P x"
  shows "\<exists>e. find P xs = Some e \<and> P e"
  using assms by (induction xs) auto


text \<open>
  C5, amended. When a user holds the requested email, \<open>register\<close> throws a
  ConflictError and stores nothing. The message is the one of the first stored user
  that holds the email or the username: it names the email when that user holds the
  email, which is the case whenever every user who holds the requested username
  holds the requested email too, and the username otherwise.
\<close>

theorem register_conflict:
  assumes "\<exists>x\<in>set (users s). email x = rb_email b"
  shows "\<exists>e. find (\<lambda>u. email u = rb_email b \<or> username u = rb_username b) (users s) = Some e \<and>
           register hash generateToken new_id s b =
             (s, Inl (ConflictError (if email e = rb_email b then ''Email is already registered''
                                     else ''Username is already taken''))) \<and>
           ((\<forall>x\<in>set (users s). username x = rb_username b \<longrightarrow> email x = rb_email b) \<longrightarrow>
              email e = rb_email b)"
proof -
  from assms have "\<exists>x\<in>set (users s). email x = rb_email b \<or> username x = rb_username b"
    by blast
  from find_first_match[OF this] obtain e where
    e: "find (\<lambda>u. email u = rb_email b \<or> username u = rb_username b) (users s) = Some e"
       "email e = rb_email b \<or> username e = rb_username b"
    by blast
  from e(1) have "e \<in> set (users s)" by (auto simp: find_Some_iff)
  with e show ?thesis by (auto simp: register_def)
qed

theorem register_conflict_witness:
  "register (\<lambda>p. ''hash-of-'' @ p) (\<lambda>i. ''token'') 3 store
     \<lparr>rb_username = ''carol'', rb_email = ''bob@example.com'', rb_password = ''Password123'',
      rb_role = None\<rparr> = (store, Inl (ConflictError ''Email is already registered''))"
proof -
  let ?b = "\<lparr>rb_username = ''carol'', rb_email = ''bob@example.com'',
             rb_password = ''Password123'', rb_role = None\<rparr>"
  have held: "\<exists>x\<in>set (users store). email x = rb_email ?b"
    by (simp add: store_def bob_def)
  have only: "\<forall>x\<in>set (users store). username x = rb_username ?b \<longrightarrow> email x = rb_email ?b"
    by (simp add: store_def alice_def bob_def)
  from register_conflict[OF held, of "\<lambda>p. ''hash-of-'' @ p" "\<lambda>i. ''token''" 3] only
  show ?thesis by auto
qed

lemmas user_eval_defs =
  register_def new_user_def validate_user_def trim_def is_space_def lowercase_def lower_char_def
  email_regex_def words_def plus_def opt_def word_char_def toJSON_def
  store_def alice_def bob_def


text \<open>
  Where the claim C9 fails: a request with the empty string as its role is stored
  with the role \<open>user\<close>, as a request without a role is.
\<close>

theorem role_claim_counterexample:
  "map role (users (fst (register (\<lambda>p. ''hash-of-'' @ p) (\<lambda>i. ''token'') 3 store
     \<lparr>rb_username = ''carol'', rb_email = ''carol@example.com'', rb_password = ''Password123'',
      rb_role = Some ''''\<rparr>))) = [''user'', ''user'', ''user'']"
  by (simp add: user_eval_defs Let_def)


lemma validate_user_role:
  "validate_user u = [] \<Longrightarrow> role u = ''user'' \<or> role u = ''admin''"
  by (auto simp: validate_user_def split: if_splits)

lemma validate_user_admin:
  "validate_user u = [] \<Longrightarrow> validate_user (u\<lparr>role := ''admin''\<rparr>) = []"
  by (auto simp: validate_user_def split: if_splits option.splits)

lemma new_user_admin:
  "new_user new_id (b\<lparr>rb_role := Some ''admin''\<rparr>) = (new_user new_id b)\<lparr>role := ''admin''\<rparr>"
  by (simp add: new_user_def)


text \<open>
  C9, amended. A registration that succeeds stores one new user, whose role is the
  role of the request, or \<open>user\<close> when the request has no role or an empty one; the
  stored role is \<open>user\<close> or \<open>admin\<close>. Nothing restricts \<open>admin\<close>: the same request
  with the role \<open>admin\<close> succeeds too and stores an \<open>admin\<close>.
\<close>

theorem register_role:
  assumes "register hash generateToken new_id s b = (s', Inr r)"
  shows "(\<exists>saved. users s' = users s @ [saved] \<and>
            role saved = (case rb_role b of None \<Rightarrow> ''user''
                          | Some x \<Rightarrow> if x = [] then ''user'' else x) \<and>
            (role saved = ''user'' \<or> role saved = ''admin'') \<and>
            r = Response 201 (AuthBody ''User registered successfully'' (toJSON saved)
                                (generateToken new_id))) \<and>
         (\<exists>admin. register hash generateToken new_id s (b\<lparr>rb_role := Some ''admin''\<rparr>) =
            (s\<lparr>users := users s @ [admin]\<rparr>,
             Inr (Response 201 (AuthBody ''User registered successfully'' (toJSON admin)
                                  (generateToken new_id)))) \<and>
            role admin = ''admin'')"
proof -
  let ?f = "find (\<lambda>u. email u = rb_email b \<or> username u = rb_username b) (users s)"
  let ?u = "new_user new_id b"
  from assms have none: "?f = None"
    by (auto simp: register_def split: option.splits)
  with assms have valid: "validate_user ?u = []"
    by (auto simp: register_def Let_def split: if_splits)
  with assms none have fresh: "new_id \<notin> set (map user_id (users s))"
    "username ?u \<notin> set (map username (users s))" "email ?u \<notin> set (map email (users s))"
    by (auto simp: register_def Let_def split: if_splits)
  let ?saved = "?u\<lparr>password := Some (hash (rb_password b))\<rparr>"
  have eq: "register hash generateToken new_id s b =
          (s\<lparr>users := users s @ [?saved]\<rparr>,
           Inr (Response 201 (AuthBody ''User registered successfully'' (toJSON ?saved)
                                (generateToken new_id))))"
    using none valid fresh by (simp add: register_def Let_def)
  have "role ?saved = (case rb_role b of None \<Rightarrow> ''user''
                          | Some x \<Rightarrow> if x = [] then ''user'' else x)"
    by (simp add: new_user_def)
  moreover have "role ?saved = ''user'' \<or> role ?saved = ''admin''"
    using validate_user_role[OF valid] by simp
  ultimately have first: "\<exists>saved. users s' = users s @ [saved] \<and>
            role saved = (case rb_role b of None \<Rightarrow> ''user''
                          | Some x \<Rightarrow> if x = [] then ''user'' else x) \<and>
            (role saved = ''user'' \<or> role saved = ''admin'') \<and>
            r = Response 201 (AuthBody ''User registered successfully'' (toJSON saved)
                                (generateToken new_id))"
    using eq assms by (intro exI[of _ ?saved]) auto
  let ?a = "(?u\<lparr>role := ''admin''\<rparr>)\<lparr>password := Some (hash (rb_password b))\<rparr>"
  have "register hash generateToken new_id s (b\<lparr>rb_role := Some ''admin''\<rparr>) =
          (s\<lparr>users := users s @ [?a]\<rparr>,
           Inr (Response 201 (AuthBody ''User registered successfully'' (toJSON ?a)
                                (generateToken new_id))))"
    using none validate_user_admin[OF valid] fresh
    by (simp add: register_def Let_def new_user_admin)
  then have second: "\<exists>admin. register hash generateToken new_id s (b\<lparr>rb_role := Some ''admin''\<rparr>) =
            (s\<lparr>users := users s @ [admin]\<rparr>,
             Inr (Response 201 (AuthBody ''User registered successfully'' (toJSON admin)
                                  (generateToken new_id)))) \<and>
            role admin = ''admin''"
    by (intro exI[of _ ?a]) simp
  from first second show ?thesis by blast
qed

theorem register_role_witness:
  "map role (users (fst (register (\<lambda>p. ''hash-of-'' @ p) (\<lambda>i. ''token'') 3 store
     \<lparr>rb_username = ''carol'', rb_email = ''carol@example.com'', rb_password = ''Password123'',
      rb_role = Some ''admin''\<rparr>))) = [''user'', ''user'', ''admin'']"
proof -
  let ?b = "\<lparr>rb_username = ''carol'', rb_email = ''carol@example.com'',
             rb_password = ''Password123'', rb_role = Some ''admin''\<rparr>"
  let ?h = "\<lambda>p. ''hash-of-'' @ p" and ?g = "\<lambda>i::nat. ''token''"
  have ok: "\<exists>r. snd (register ?h ?g 3 store ?b) = Inr r"
    by (simp add: user_eval_defs Let_def)
  then obtain r where "register ?h ?g 3 store ?b = (fst (register ?h ?g 3 store ?b), Inr r)"
    by (metis prod.collapse)
  from register_role[OF this] obtain saved where
    "users (fst (register ?h ?g 3 store ?b)) = users store @ [saved]" "role saved = ''admin''"
    by auto
  then show ?thesis by (simp add: store_def alice_def bob_def)
qed

subsection \<open>The authentication middleware\<close>

text \<open>
  C8. \<open>auth\<close> answers 401 with four messages that differ from each other: when
  there is no header or nothing is left of it once \<open>Bearer \<close> is removed; when
  \<open>jwt.verify\<close> throws a JsonWebTokenError (a token that is malformed or whose
  signature is wrong); when it throws a TokenExpiredError; and when the token is
  verified but no user has its id or that user is not active. Otherwise the user
  found, without the password, is attached to the request.
\<close>

theorem auth_outcomes:
  "auth verify s None = Inl (Response 401 (ErrorOnly ''Access denied. No token provided.'')) \<and>
   (replace_first ''Bearer '' [] h = [] \<longrightarrow>
      auth verify s (Some h) =
        Inl (Response 401 (ErrorOnly ''Access denied. No token provided.''))) \<and>
   (replace_first ''Bearer '' [] h = token \<and> token \<noteq> [] \<longrightarrow>
      (verify token = Throws ''JsonWebTokenError'' \<longrightarrow>
         auth verify s (Some h) = Inl (Response 401 (ErrorOnly ''Invalid token.''))) \<and>
      (verify token = Throws ''TokenExpiredError'' \<longrightarrow>
         auth verify s (Some h) = Inl (Response 401 (ErrorOnly ''Token expired.''))) \<and>
      (verify token = Payload (Some (ObjectId i)) \<and>
       (findUserById (users s) i = None \<or>
        (\<exists>x. findUserById (users s) i = Some x \<and> \<not> user_isActive x)) \<longrightarrow>
         auth verify s (Some h) =
           Inl (Response 401 (ErrorOnly ''Invalid token. User not found or inactive.''))) \<and>
      (verify token = Payload (Some (ObjectId i)) \<and> findUserById (users s) i = Some user \<and>
       user_isActive user \<longrightarrow>
         auth verify s (Some h) = Inr (user\<lparr>password := None\<rparr>))) \<and>
   distinct [''Access denied. No token provided.'', ''Invalid token.'', ''Token expired.'',
             ''Invalid token. User not found or inactive.'']"
proof (intro conjI impI)
  show "auth verify s None = Inl (Response 401 (ErrorOnly ''Access denied. No token provided.''))"
    by (simp add: auth_def no_token_def)
next
  assume "replace_first ''Bearer '' [] h = []"
  then show "auth verify s (Some h) =
        Inl (Response 401 (ErrorOnly ''Access denied. No token provided.''))"
    by (simp add: auth_def no_token_def)
next
  assume "replace_first ''Bearer '' [] h = token \<and> token \<noteq> []"
    and "verify token = Throws ''JsonWebTokenError''"
  then show "auth verify s (Some h) = Inl (Response 401 (ErrorOnly ''Invalid token.''))"
    by (auto simp: auth_def)
next
  assume "replace_first ''Bearer '' [] h = token \<and> token \<noteq> []"
    and "verify token = Throws ''TokenExpiredError''"
  then show "auth verify s (Some h) = Inl (Response 401 (ErrorOnly ''Token expired.''))"
    by (auto simp: auth_def)
next
  assume "replace_first ''Bearer '' [] h = token \<and> token \<noteq> []"
    and "verify token = Payload (Some (ObjectId i)) \<and>
       (findUserById (users s) i = None \<or>
        (\<exists>x. findUserById (users s) i = Some x \<and> \<not> user_isActive x))"
  then show "auth verify s (Some h) =
           Inl (Response 401 (ErrorOnly ''Invalid token. User not found or inactive.''))"
    by (auto simp: auth_def user_not_found_def)
next
  assume "replace_first ''Bearer '' [] h = token \<and> token \<noteq> []"
    and "verify token = Payload (Some (ObjectId i)) \<and> findUserById (users s) i = Some user \<and>
       user_isActive user"
  then show "auth verify s (Some h) = Inr (user\<lparr>password := None\<rparr>)"
    by (auto simp: auth_def toJSON_def)
next
  show "distinct [''Access denied. No token provided.'', ''Invalid token.'', ''Token expired.'',
             ''Invalid token. User not found or inactive.'']"
    by simp
qed


lemma bearer: "replace_first ''Bearer '' [] ''Bearer abc'' = ''abc''"
  by simp

lemma bearer_only: "replace_first ''Bearer '' [] ''Bearer '' = []"
  by simp


theorem auth_outcomes_witness:
  "auth (\<lambda>t. Payload (Some (ObjectId 1))) store None =
     Inl (Response 401 (ErrorOnly ''Access denied. No token provided.'')) \<and>
   auth (\<lambda>t. Payload (Some (ObjectId 1))) store (Some ''Bearer '') =
     Inl (Response 401 (ErrorOnly ''Access denied. No token provided.'')) \<and>
   auth (\<lambda>t. Throws ''JsonWebTokenError'') store (Some ''Bearer abc'') =
     Inl (Response 401 (ErrorOnly ''Invalid token.'')) \<and>
   auth (\<lambda>t. Throws ''TokenExpiredError'') store (Some ''Bearer abc'') =
     Inl (Response 401 (ErrorOnly ''Token expired.'')) \<and>
   auth (\<lambda>t. Payload (Some (ObjectId 3))) store (Some ''Bearer abc'') =
     Inl (Response 401 (ErrorOnly ''Invalid token. User not found or inactive.'')) \<and>
   auth (\<lambda>t. Payload (Some (ObjectId 1)))
        (store\<lparr>users := [alice\<lparr>user_isActive := False\<rparr>, bob]\<rparr>) (Some ''Bearer abc'') =
     Inl (Response 401 (ErrorOnly ''Invalid token. User not found or inactive.'')) \<and>
   auth (\<lambda>t. Payload (Some (ObjectId 1))) store (Some ''Bearer abc'') =
     Inr (alice\<lparr>password := None\<rparr>)"
proof -
  have found: "findUserById (users store) 1 = Some alice"
    and absent: "findUserById (users store) 3 = None"
    and disabled: "findUserById (users (store\<lparr>users := [alice\<lparr>user_isActive := False\<rparr>, bob]\<rparr>)) 1
                     = Some (alice\<lparr>user_isActive := False\<rparr>)"
    and active: "user_isActive alice"
    by (simp_all add: findUserById_def store_def alice_def bob_def)
  note a = auth_outcomes[where verify = "\<lambda>t. Payload (Some (ObjectId 1))"
             and s = store]
  note a' = auth_outcomes[where h = "''Bearer ''"
             and verify = "\<lambda>t. Payload (Some (ObjectId 1))" and s = store]
  note b = auth_outcomes[where h = "''Bearer abc''" and token = "''abc''"
             and verify = "\<lambda>t. Throws ''JsonWebTokenError''" and s = store]
  note c = auth_outcomes[where h = "''Bearer abc''" and token = "''abc''"
             and verify = "\<lambda>t. Throws ''TokenExpiredError''" and s = store]
  note d = auth_outcomes[where h = "''Bearer abc''" and token = "''abc''"
             and verify = "\<lambda>t. Payload (Some (ObjectId 3))" and s = store and i = 3]
  note d' = auth_outcomes[where h = "''Bearer abc''" and token = "''abc''"
             and verify = "\<lambda>t. Payload (Some (ObjectId 1))"
             and s = "store\<lparr>users := [alice\<lparr>user_isActive := False\<rparr>, bob]\<rparr>" and i = 1]
  note e = auth_outcomes[where h = "''Bearer abc''" and token = "''abc''"
             and verify = "\<lambda>t. Payload (Some (ObjectId 1))" and s = store and i = 1
             and user = alice]
  have 1: "auth (\<lambda>t. Payload (Some (ObjectId 1))) store None =
     Inl (Response 401 (ErrorOnly ''Access denied. No token provided.''))"
    using a by simp
  have 2: "auth (\<lambda>t. Payload (Some (ObjectId 1))) store (Some ''Bearer '') =
     Inl (Response 401 (ErrorOnly ''Access denied. No token provided.''))"
    using a' bearer_only by simp
  have 3: "auth (\<lambda>t. Throws ''JsonWebTokenError'') store (Some ''Bearer abc'') =
     Inl (Response 401 (ErrorOnly ''Invalid token.''))"
    using b bearer by simp
  have 4: "auth (\<lambda>t. Throws ''TokenExpiredError'') store (Some ''Bearer abc'') =
     Inl (Response 401 (ErrorOnly ''Token expired.''))"
    using c bearer by simp
  have 5: "auth (\<lambda>t. Payload (Some (ObjectId 3))) store (Some ''Bearer abc'') =
     Inl (Response 401 (ErrorOnly ''Invalid token. User not found or inactive.''))"
    using d bearer absent by simp
  have 6: "auth (\<lambda>t. Payload (Some (ObjectId 1)))
        (store\<lparr>users := [alice\<lparr>user_isActive := False\<rparr>, bob]\<rparr>) (Some ''Bearer abc'') =
     Inl (Response 401 (ErrorOnly ''Invalid token. User not found or inactive.''))"
    using d' bearer disabled by simp
  have 7: "auth (\<lambda>t. Payload (Some (ObjectId 1))) store (Some ''Bearer abc'') =
     Inr (alice\<lparr>password := None\<rparr>)"
    using e bearer found active by simp
  from 1 2 3 4 5 6 7 show ?thesis by blast
qed

end
